theory Spec2Isabelle
  imports Main
begin

section \<open>Errors\<close>

text \<open>
  Every \<^verbatim>\<open>throw\<close> of the TypeScript sources is a value of \<open>error\<close>; a function that
  can throw returns \<open>error + 'a\<close> with \<open>Inl\<close> for the error. The sources throw
  \<^verbatim>\<open>CredoError\<close> with a message (or \<^verbatim>\<open>ProblemReportError\<close> with a problem code);
  the constructors are named after the taxonomy of the specification.
\<close>

datatype error =
    ConnectionNotReady
  | ErrorProcessingAttachments
  | QueryFailed
  | InvalidProtocolVersion
  | InvalidStateTransition
  | NoSupportedFormats
  | NegotiationNotSupported
  | NotFound
  | ConnectionCheckFailed
  | AttachmentLookupFailed

section \<open>Message pickup protocol, version 2\<close>

subsection \<open>Data\<close>

record connectionRecord =
  connId :: string
  isReady :: bool

record agentContext =
  contextCorrelationId :: string

text \<open>
  \<open>dataJson\<close> is the field \<^verbatim>\<open>data.json\<close> the delivery methods fill
  (\<^verbatim>\<open>data: { json: msg.encryptedMessage }\<close>). Reading the data of an inbound attachment
  is the method \<^verbatim>\<open>getDataAsJson\<close> of the \<^verbatim>\<open>Attachment\<close> class, which is not under src/
  and can throw; it is a parameter of \<open>processDelivery\<close>.
\<close>

record attachment =
  attachmentId :: string
  lastmodTime :: "nat option"
  dataJson :: string

record queuedMessage =
  queuedId :: string
  receivedAt :: "nat option"
  encryptedMessage :: string

text \<open>
  In the message records the thread field is the value of the \<^verbatim>\<open>threadId\<close> getter: the
  thread decorator's id when the message was built with one, and the message's own
  generated id otherwise.
\<close>

record v2StatusRequestMessage =
  sr_threadId :: string
  sr_recipientKey :: "string option"

record v2StatusMessage =
  st_threadId :: string
  st_recipientKey :: "string option"
  st_messageCount :: int
  st_liveDelivery :: "bool option"

record v2DeliveryRequestMessage =
  dr_threadId :: string
  dr_recipientKey :: "string option"
  dr_limit :: int

record v2MessagesReceivedMessage =
  mr_threadId :: string
  mr_messageIdList :: "string list"

record v2MessageDeliveryMessage =
  md_threadId :: string
  md_recipientKey :: "string option"
  md_appendedAttachments :: "attachment list option"

record 'm inboundMessageContext =
  message :: 'm
  connection :: "connectionRecord option"
  inboundAgentContext :: agentContext

record 'm outboundMessageContext =
  outboundMessage :: 'm
  outboundConnection :: connectionRecord

datatype pickupEvent =
    MessagePickupCompleted connectionRecord string
  | AgentMessageReceived string string "nat option"

datatype deliveryOrStatus =
    DeliveryMessage v2MessageDeliveryMessage
  | StatusMessage v2StatusMessage

text \<open>
  Modelled from the spec: \<^verbatim>\<open>InboundMessageContext.assertReadyConnection\<close> is not under
  src/. The specification gives its contract as
  \<^verbatim>\<open>assertReadyConnection() -> connection | fails(ConnectionNotReady)\<close>.
\<close>

definition assertReadyConnection :: "'m inboundMessageContext \<Rightarrow> error + connectionRecord" where
  "assertReadyConnection messageContext =
     (case connection messageContext of
        None \<Rightarrow> Inl ConnectionNotReady
      | Some c \<Rightarrow> if isReady c then Inr c else Inl ConnectionNotReady)"

subsection \<open>The queue repository interface\<close>

text \<open>
  \<^verbatim>\<open>QueueTransportMessageRepository\<close> is an interface; an implementation is a record of
  functions over its own store \<open>'q\<close>. The option objects of the source are passed as
  curried arguments, in the order connectionId, recipientDid, limit, keepMessages
  (\<^verbatim>\<open>takeFromQueue\<close>), connectionId, recipientDid (\<^verbatim>\<open>getAvailableMessageCount\<close>) and
  connectionId, messageIds (\<^verbatim>\<open>removeMessages\<close>); an option the caller leaves out is
  \<open>None\<close>. A mutating call returns the new store also when it throws.
  \<^verbatim>\<open>addMessage\<close> is used by none of the protocol methods below and is left out.
\<close>

record 'q queueTransportMessageRepository =
  getAvailableMessageCount :: "'q \<Rightarrow> string \<Rightarrow> string option \<Rightarrow> error + int"
  takeFromQueue ::
    "'q \<Rightarrow> string \<Rightarrow> string option \<Rightarrow> int option \<Rightarrow> bool option \<Rightarrow> (error + queuedMessage list) \<times> 'q"
  removeMessages :: "'q \<Rightarrow> string \<Rightarrow> string list \<Rightarrow> (error + unit) \<times> 'q"

subsection \<open>V2MessagePickupProtocol\<close>

definition toAttachment :: "queuedMessage \<Rightarrow> attachment" where
  "toAttachment msg =
     \<lparr>attachmentId = queuedId msg, lastmodTime = receivedAt msg, dataJson = encryptedMessage msg\<rparr>"

text \<open>\<^verbatim>\<open>recipientKey ? verkeyToDidKey(recipientKey) : undefined\<close>; the empty string is falsy.\<close>

definition recipientDidOf :: "(string \<Rightarrow> string) \<Rightarrow> string option \<Rightarrow> string option" where
  "recipientDidOf verkeyToDidKey recipientKey =
     (case recipientKey of
        None \<Rightarrow> None
      | Some k \<Rightarrow> if k = [] then None else Some (verkeyToDidKey k))"

definition processStatusRequest ::
  "'q queueTransportMessageRepository \<Rightarrow> (string \<Rightarrow> string) \<Rightarrow> 'q \<Rightarrow>
   v2StatusRequestMessage inboundMessageContext \<Rightarrow>
   error + v2StatusMessage outboundMessageContext" where
  "processStatusRequest repo verkeyToDidKey q messageContext =
     (case assertReadyConnection messageContext of
        Inl e \<Rightarrow> Inl e
      | Inr conn \<Rightarrow>
          (let recipientKey = sr_recipientKey (message messageContext) in
           case getAvailableMessageCount repo q (connId conn)
                  (recipientDidOf verkeyToDidKey recipientKey) of
             Inl e \<Rightarrow> Inl e
           | Inr n \<Rightarrow>
               Inr \<lparr>outboundMessage =
                      \<lparr>st_threadId = sr_threadId (message messageContext),
                       st_recipientKey = recipientKey,
                       st_messageCount = n,
                       st_liveDelivery = None\<rparr>,
                    outboundConnection = conn\<rparr>))"

definition processDeliveryRequest ::
  "'q queueTransportMessageRepository \<Rightarrow> (string \<Rightarrow> string) \<Rightarrow> 'q \<Rightarrow>
   v2DeliveryRequestMessage inboundMessageContext \<Rightarrow>
   (error + deliveryOrStatus outboundMessageContext) \<times> 'q" where
  "processDeliveryRequest repo verkeyToDidKey q messageContext =
     (case assertReadyConnection messageContext of
        Inl e \<Rightarrow> (Inl e, q)
      | Inr conn \<Rightarrow>
          (let recipientKey = dr_recipientKey (message messageContext) in
           case takeFromQueue repo q (connId conn)
                  (recipientDidOf verkeyToDidKey recipientKey)
                  (Some (dr_limit (message messageContext))) None of
             (Inl e, q') \<Rightarrow> (Inl e, q')
           | (Inr messages, q') \<Rightarrow>
               (let attachments = map toAttachment messages;
                    out =
                      (if length messages > 0
                       then DeliveryMessage
                              \<lparr>md_threadId = dr_threadId (message messageContext),
                               md_recipientKey = recipientKey,
                               md_appendedAttachments = Some attachments\<rparr>
                       else StatusMessage
                              \<lparr>st_threadId = dr_threadId (message messageContext),
                               st_recipientKey = recipientKey,
                               st_messageCount = 0,
                               st_liveDelivery = None\<rparr>)
                in (Inr \<lparr>outboundMessage = out, outboundConnection = conn\<rparr>, q'))))"

definition processMessagesReceived ::
  "'q queueTransportMessageRepository \<Rightarrow> 'q \<Rightarrow>
   v2MessagesReceivedMessage inboundMessageContext \<Rightarrow>
   (error + v2StatusMessage outboundMessageContext) \<times> 'q" where
  "processMessagesReceived repo q messageContext =
     (case assertReadyConnection messageContext of
        Inl e \<Rightarrow> (Inl e, q)
      | Inr conn \<Rightarrow>
          (case (if length (mr_messageIdList (message messageContext)) \<noteq> 0
                 then removeMessages repo q (connId conn)
                        (mr_messageIdList (message messageContext))
                 else (Inr (), q)) of
             (Inl e, q') \<Rightarrow> (Inl e, q')
           | (Inr u, q') \<Rightarrow>
               (case getAvailableMessageCount repo q' (connId conn) None of
                  Inl e \<Rightarrow> (Inl e, q')
                | Inr n \<Rightarrow>
                    (Inr \<lparr>outboundMessage =
                            \<lparr>st_threadId = mr_threadId (message messageContext),
                             st_recipientKey = None,
                             st_messageCount = n,
                             st_liveDelivery = None\<rparr>,
                          outboundConnection = conn\<rparr>, q'))))"

text \<open>
  \<^verbatim>\<open>processStatus\<close> returns \<^verbatim>\<open>null\<close> (\<open>None\<close>) or the delivery request, together with
  the events it emitted. \<open>maximumBatchSize\<close> is the value of
  \<^verbatim>\<open>MessagePickupModuleConfig.maximumBatchSize\<close>; \<open>newId\<close> is the generated id of the
  message that is built.
\<close>

definition processStatus ::
  "int \<Rightarrow> string \<Rightarrow> v2StatusMessage inboundMessageContext \<Rightarrow>
   error + (v2DeliveryRequestMessage option \<times> pickupEvent list)" where
  "processStatus maximumBatchSize newId messageContext =
     (let statusMessage = message messageContext;
          messageCount = st_messageCount statusMessage;
          recipientKey = st_recipientKey statusMessage
      in case assertReadyConnection messageContext of
           Inl e \<Rightarrow> Inl e
         | Inr conn \<Rightarrow>
             if messageCount = 0
             then Inr (None, [MessagePickupCompleted conn (st_threadId statusMessage)])
             else
               (let maximumMessagePickup = maximumBatchSize;
                    limit = (if messageCount < maximumMessagePickup
                             then messageCount else maximumMessagePickup)
                in Inr (Some \<lparr>dr_threadId = newId, dr_recipientKey = recipientKey,
                               dr_limit = limit\<rparr>, [])))"

text \<open>\<^verbatim>\<open>V2StatusHandler.handle\<close>: the outbound context, if any, and the events emitted.\<close>

definition V2StatusHandler_handle ::
  "int \<Rightarrow> string \<Rightarrow> v2StatusMessage inboundMessageContext \<Rightarrow>
   error + (v2DeliveryRequestMessage outboundMessageContext option \<times> pickupEvent list)" where
  "V2StatusHandler_handle maximumBatchSize newId messageContext =
     (case assertReadyConnection messageContext of
        Inl e \<Rightarrow> Inl e
      | Inr conn \<Rightarrow>
          (case processStatus maximumBatchSize newId messageContext of
             Inl e \<Rightarrow> Inl e
           | Inr (deliveryRequestMessage, evs) \<Rightarrow>
               (case deliveryRequestMessage of
                  Some m \<Rightarrow> Inr (Some \<lparr>outboundMessage = m, outboundConnection = conn\<rparr>, evs)
                | None \<Rightarrow> Inr (None, evs))))"



subsection \<open>PostgreSQLMessageRepository (samples/mediator-cluster)\<close>

text \<open>
  The table \<^verbatim>\<open>MESSAGES (uuid, connection_id, timestamp, payload)\<close> is a list of rows.
  The column \<open>uuid\<close> has the type \<^verbatim>\<open>UUID\<close>: a stored value is the canonical text of a
  uuid, 32 lower-case hexadecimal digits in groups of 8, 4, 4, 4 and 12. Connection ids
  are the agent's own record ids. \<^verbatim>\<open>ORDER BY timestamp ASC\<close> is a stable sort of the
  rows in table order.
\<close>

record messageRow =
  uuid :: string
  connection_id :: string
  timestamp :: nat
  payload :: string

definition isHexDigit :: "char \<Rightarrow> bool" where
  "isHexDigit c = (c \<in> set ''0123456789abcdef'')"

definition isCanonicalUuid :: "string \<Rightarrow> bool" where
  "isCanonicalUuid s =
     list_all2 (\<lambda>p c. if p = CHR ''-'' then c = CHR ''-'' else isHexDigit c)
       ''xxxxxxxx-xxxx-xxxx-xxxx-xxxxxxxxxxxx'' s"

definition asyncGetAvailableMessageCount ::
  "messageRow list \<Rightarrow> string \<Rightarrow> string option \<Rightarrow> error + int" where
  "asyncGetAvailableMessageCount rows connectionId recipientDid =
     Inr (int (length (filter (\<lambda>r. connection_id r = connectionId) rows)))"

text \<open>
  \<^verbatim>\<open>DELETE FROM MESSAGES WHERE uuid IN ( ... )\<close>, the ids quoted and joined into the
  text of the statement; the connection id is not used. With no id the statement is
  \<^verbatim>\<open>IN ( )\<close>, which the database rejects. When every id is the canonical text of a uuid
  the rows with these uuids are deleted. Any other id changes what the statement is:
  the database may reject the literal, read it as another spelling of a uuid, or run
  the statement that an id with a quote turns the text into. That outcome belongs to
  the database and is the parameter \<open>otherStatement\<close>.
\<close>

definition asyncRemoveMessages ::
  "(messageRow list \<Rightarrow> string list \<Rightarrow> (error + unit) \<times> messageRow list) \<Rightarrow>
   messageRow list \<Rightarrow> string \<Rightarrow> string list \<Rightarrow> (error + unit) \<times> messageRow list" where
  "asyncRemoveMessages otherStatement rows connectionId messageIds =
     (if messageIds = [] then (Inl QueryFailed, rows)
      else if list_all isCanonicalUuid messageIds
      then (Inr (), filter (\<lambda>r. uuid r \<notin> set messageIds) rows)
      else otherStatement rows messageIds)"

text \<open>
  The loop of \<^verbatim>\<open>asyncTakeFromQueue\<close> over the rows the query returned: a row becomes a
  message when \<^verbatim>\<open>uuid && payload\<close>, that is when both are non-empty; unless
  \<^verbatim>\<open>options.keepMessages\<close> is truthy, the rows taken are then removed.
\<close>

definition takeResults ::
  "(messageRow list \<Rightarrow> string list \<Rightarrow> (error + unit) \<times> messageRow list) \<Rightarrow>
   messageRow list \<Rightarrow> string \<Rightarrow> bool option \<Rightarrow> messageRow list \<Rightarrow>
   (error + queuedMessage list) \<times> messageRow list" where
  "takeResults otherStatement rows connectionId keepMessages results =
     (let taken = filter (\<lambda>r. uuid r \<noteq> [] \<and> payload r \<noteq> []) results;
          uuids = map uuid taken;
          messages = map (\<lambda>r. \<lparr>queuedId = uuid r, receivedAt = None,
                                encryptedMessage = payload r\<rparr>) taken
      in if keepMessages \<noteq> Some True
         then (case asyncRemoveMessages otherStatement rows connectionId uuids of
                 (Inl e, rows') \<Rightarrow> (Inl e, rows')
               | (Inr u, rows') \<Rightarrow> (Inr messages, rows'))
         else (Inr messages, rows))"

text \<open>
  \<^verbatim>\<open>options.limit ? options.limit : 'ALL'\<close>: an absent limit and the limit 0 select all
  rows of the connection. \<^verbatim>\<open>LIMIT\<close> with a negative number is rejected by the database.
\<close>

definition asyncTakeFromQueue ::
  "(messageRow list \<Rightarrow> string list \<Rightarrow> (error + unit) \<times> messageRow list) \<Rightarrow>
   messageRow list \<Rightarrow> string \<Rightarrow> string option \<Rightarrow> int option \<Rightarrow> bool option \<Rightarrow>
   (error + queuedMessage list) \<times> messageRow list" where
  "asyncTakeFromQueue otherStatement rows connectionId recipientDid limit keepMessages =
     (let messagesToTake = (case limit of None \<Rightarrow> None
                            | Some n \<Rightarrow> if n = 0 then None else Some n);
          selected = sort_key timestamp (filter (\<lambda>r. connection_id r = connectionId) rows)
      in case messagesToTake of
           None \<Rightarrow> takeResults otherStatement rows connectionId keepMessages selected
         | Some n \<Rightarrow>
             if n < 0 then (Inl QueryFailed, rows)
             else takeResults otherStatement rows connectionId keepMessages (take (nat n) selected))"

definition PostgreSQLMessageRepository ::
  "(messageRow list \<Rightarrow> string list \<Rightarrow> (error + unit) \<times> messageRow list) \<Rightarrow>
   messageRow list queueTransportMessageRepository" where
  "PostgreSQLMessageRepository otherStatement =
     \<lparr>getAvailableMessageCount = asyncGetAvailableMessageCount,
      takeFromQueue = asyncTakeFromQueue otherStatement,
      removeMessages = asyncRemoveMessages otherStatement\<rparr>"

section \<open>Issue-credential protocol, version 2\<close>

subsection \<open>Data\<close>

datatype credentialRole = Holder | Issuer

datatype credentialState =
    ProposalSent | ProposalReceived | OfferSent | OfferReceived | RequestSent
  | RequestReceived | CredentialIssued | CredentialReceived | Done | Abandoned

datatype autoAcceptCredential = Always | ContentApproved | Never

datatype messageClass =
    V2ProposeCredentialMessage | V2OfferCredentialMessage | V2RequestCredentialMessage
  | V2IssueCredentialMessage

datatype didCommMessageRole = Sender | Receiver

record credentialFormatSpec =
  specAttachmentId :: string
  format :: string

record credentialPreviewAttribute =
  attributeName :: string
  attributeValue :: string

text \<open>
  One record stands for the four message classes; \<open>messageAttachments\<close> is the field
  \<^verbatim>\<open>proposalAttachments\<close>, \<^verbatim>\<open>offerAttachments\<close>, \<^verbatim>\<open>requestAttachments\<close> or
  \<^verbatim>\<open>credentialAttachments\<close> of the class, and \<open>credentialPreview\<close> is \<open>None\<close> when the
  message carries no preview.
\<close>

record v2CredentialMessage =
  messageId :: string
  messageClass :: messageClass
  msgThreadId :: string
  msgParentThreadId :: "string option"
  formats :: "credentialFormatSpec list"
  messageAttachments :: "attachment list"
  credentialPreview :: "credentialPreviewAttribute list option"

record credentialExchangeRecord =
  recordId :: string
  connectionId :: "string option"
  threadId :: string
  parentThreadId :: "string option"
  state :: credentialState
  role :: credentialRole
  autoAcceptCredential :: "autoAcceptCredential option"
  protocolVersion :: string

record didCommMessageRecord =
  associatedRecordId :: string
  messageRole :: didCommMessageRole
  agentMessage :: v2CredentialMessage

text \<open>
  The exchange record store, the message repository and the state-changed events
  emitted so far (each with its \<^verbatim>\<open>previousState\<close>, \<open>None\<close> for \<^verbatim>\<open>null\<close>).
\<close>

record agentState =
  credentialRecords :: "credentialExchangeRecord list"
  didCommMessages :: "didCommMessageRecord list"
  stateChangedEvents :: "(credentialExchangeRecord \<times> credentialState option) list"

subsection \<open>Collaborators that are interfaces\<close>

text \<open>
  A format service is an object of type \<open>'s\<close>; the methods of the
  \<^verbatim>\<open>CredentialFormatService\<close> interface that the protocol calls are functions of the
  object. The attachments are passed in the order offer, proposal
  (\<^verbatim>\<open>shouldAutoRespondToProposal\<close>, \<^verbatim>\<open>shouldAutoRespondToOffer\<close>), offer, request,
  proposal (\<^verbatim>\<open>shouldAutoRespondToRequest\<close>) and offer, credential, request, proposal
  (\<^verbatim>\<open>shouldAutoRespondToCredential\<close>).
\<close>

record 's credentialFormatService =
  formatKey :: "'s \<Rightarrow> string"
  supportsFormat :: "'s \<Rightarrow> string \<Rightarrow> bool"
  fs_shouldAutoRespondToProposal ::
    "'s \<Rightarrow> credentialExchangeRecord \<Rightarrow> attachment \<Rightarrow> attachment \<Rightarrow> bool"
  fs_shouldAutoRespondToOffer ::
    "'s \<Rightarrow> credentialExchangeRecord \<Rightarrow> attachment \<Rightarrow> attachment \<Rightarrow> bool"
  fs_shouldAutoRespondToRequest ::
    "'s \<Rightarrow> credentialExchangeRecord \<Rightarrow> attachment \<Rightarrow> attachment \<Rightarrow> attachment option \<Rightarrow> bool"
  fs_shouldAutoRespondToCredential ::
    "'s \<Rightarrow> credentialExchangeRecord \<Rightarrow> attachment option \<Rightarrow> attachment \<Rightarrow> attachment \<Rightarrow>
     attachment option \<Rightarrow> bool"

text \<open>
  \<^verbatim>\<open>CredentialFormatCoordinator\<close> is not under src/ and is a parameter. A step that
  builds a message takes the message repository, the record, the format services and
  the \<^verbatim>\<open>credentialFormats\<close> payload (its keys), and returns the message and the new
  repository, or throws; a step that processes a message returns the new repository, or
  throws.
\<close>

type_synonym 's createStep =
  "didCommMessageRecord list \<Rightarrow> credentialExchangeRecord \<Rightarrow> 's list \<Rightarrow> string list option \<Rightarrow>
   error + (v2CredentialMessage \<times> didCommMessageRecord list)"

type_synonym 's processStep =
  "didCommMessageRecord list \<Rightarrow> credentialExchangeRecord \<Rightarrow> 's list \<Rightarrow> v2CredentialMessage \<Rightarrow>
   error + didCommMessageRecord list"

record 's credentialFormatCoordinator =
  getAttachmentForService ::
    "'s \<Rightarrow> credentialFormatSpec list \<Rightarrow> attachment list \<Rightarrow> error + attachment"
  co_createProposal :: "'s createStep"
  co_processProposal :: "'s processStep"
  co_acceptProposal :: "'s createStep"
  co_createOffer :: "'s createStep"
  co_processOffer :: "'s processStep"
  co_acceptOffer :: "'s createStep"
  co_processRequest :: "'s processStep"
  co_acceptRequest :: "'s createStep"

text \<open>
  \<^verbatim>\<open>DidCommConnectionService\<close> is not under src/ and is a parameter. The options of
  \<^verbatim>\<open>assertConnectionOrOutOfBandExchange\<close> are lastReceivedMessage, lastSentMessage and
  expectedConnectionId, all \<open>None\<close> when the call passes no options.
\<close>

record connectionService =
  assertConnectionOrOutOfBandExchange ::
    "v2CredentialMessage inboundMessageContext \<Rightarrow> v2CredentialMessage option \<Rightarrow>
     v2CredentialMessage option \<Rightarrow> string option \<Rightarrow> error + unit"
  matchIncomingMessageToRequestMessageInOutOfBandExchange ::
    "v2CredentialMessage inboundMessageContext \<Rightarrow> string option \<Rightarrow> error + unit"

text \<open>
  The protocol object (\<open>credentialFormats\<close>, the coordinator) together with what it
  resolves from the dependency manager: the connection service and the module's
  \<^verbatim>\<open>autoAcceptCredentials\<close>.
\<close>

record 's v2DidCommCredentialProtocol =
  credentialFormats :: "'s list"
  formatServiceOps :: "'s credentialFormatService"
  credentialFormatCoordinator :: "'s credentialFormatCoordinator"
  connectionServiceOps :: connectionService
  autoAcceptCredentials :: autoAcceptCredential

subsection \<open>Format resolution\<close>

definition getFormatServiceForFormatKey :: "'s v2DidCommCredentialProtocol \<Rightarrow> string \<Rightarrow> 's option" where
  "getFormatServiceForFormatKey P k =
     List.find (\<lambda>credentialFormat. formatKey (formatServiceOps P) credentialFormat = k)
       (credentialFormats P)"

definition getFormatServiceForFormat :: "'s v2DidCommCredentialProtocol \<Rightarrow> string \<Rightarrow> 's option" where
  "getFormatServiceForFormat P f =
     List.find (\<lambda>credentialFormat. supportsFormat (formatServiceOps P) credentialFormat f)
       (credentialFormats P)"

text \<open>\<^verbatim>\<open>Set.add\<close>: a JavaScript \<^verbatim>\<open>Set\<close> keeps insertion order and ignores a repeated value.\<close>

definition setAdd :: "'a list \<Rightarrow> 'a \<Rightarrow> 'a list" where
  "setAdd xs x = (if x \<in> set xs then xs else xs @ [x])"

definition getFormatServicesFromMessage ::
  "'s v2DidCommCredentialProtocol \<Rightarrow> credentialFormatSpec list \<Rightarrow> 's list" where
  "getFormatServicesFromMessage P messageFormats =
     foldl (\<lambda>formatServices msg.
              case getFormatServiceForFormat P (format msg) of
                Some service \<Rightarrow> setAdd formatServices service
              | None \<Rightarrow> formatServices)
       [] messageFormats"

text \<open>\<open>credentialFormats\<close> is \<^verbatim>\<open>Object.keys(credentialFormats)\<close>.\<close>

definition getFormatServices :: "'s v2DidCommCredentialProtocol \<Rightarrow> string list \<Rightarrow> 's list" where
  "getFormatServices P credentialFormatKeys =
     foldl (\<lambda>formats formatKey.
              case getFormatServiceForFormatKey P formatKey of
                Some formatService \<Rightarrow> setAdd formats formatService
              | None \<Rightarrow> formats)
       [] credentialFormatKeys"

subsection \<open>Repositories and record utilities\<close>

text \<open>
  Modelled from the spec: \<^verbatim>\<open>DidCommMessageRepository.findAgentMessage\<close> is not under
  src/. The specification: messages are retrievable by (associated record id, role,
  message class), and \<^verbatim>\<open>find\<close> returns optional. A call that passes no role matches
  every role.
\<close>

definition findAgentMessage ::
  "didCommMessageRecord list \<Rightarrow> string \<Rightarrow> messageClass \<Rightarrow> didCommMessageRole option \<Rightarrow>
   v2CredentialMessage option" where
  "findAgentMessage msgs recId cls r =
     map_option agentMessage
       (List.find (\<lambda>m. associatedRecordId m = recId \<and> messageClass (agentMessage m) = cls
                       \<and> (case r of None \<Rightarrow> True | Some x \<Rightarrow> messageRole m = x)) msgs)"

text \<open>
  Modelled from the spec: \<^verbatim>\<open>DidCommMessageRepository.getAgentMessage\<close> is not under
  src/. The specification: \<^verbatim>\<open>get\<close> fails with \<^verbatim>\<open>NotFound\<close> if absent.
\<close>

definition getAgentMessage ::
  "didCommMessageRecord list \<Rightarrow> string \<Rightarrow> messageClass \<Rightarrow> didCommMessageRole option \<Rightarrow>
   error + v2CredentialMessage" where
  "getAgentMessage msgs recId cls r =
     (case findAgentMessage msgs recId cls r of None \<Rightarrow> Inl NotFound | Some m \<Rightarrow> Inr m)"

definition findProposalMessage :: "didCommMessageRecord list \<Rightarrow> string \<Rightarrow> v2CredentialMessage option" where
  "findProposalMessage msgs credentialExchangeId =
     findAgentMessage msgs credentialExchangeId V2ProposeCredentialMessage None"

definition findOfferMessage :: "didCommMessageRecord list \<Rightarrow> string \<Rightarrow> v2CredentialMessage option" where
  "findOfferMessage msgs credentialExchangeId =
     findAgentMessage msgs credentialExchangeId V2OfferCredentialMessage None"


text \<open>
  Modelled from the spec: \<^verbatim>\<open>findByProperties\<close> of the base protocol class is not under
  src/. The specification: \<^verbatim>\<open>findByProperties(threadId, role, connectionId?) -> record?\<close>;
  a connection id that is not given does not constrain the lookup.
\<close>

definition findByProperties ::
  "credentialExchangeRecord list \<Rightarrow> string \<Rightarrow> credentialRole \<Rightarrow> string option \<Rightarrow>
   credentialExchangeRecord option" where
  "findByProperties records thId r cId =
     List.find (\<lambda>x. threadId x = thId \<and> role x = r
                     \<and> (case cId of None \<Rightarrow> True | Some c \<Rightarrow> connectionId x = Some c)) records"

text \<open>
  Modelled from the spec: \<^verbatim>\<open>assertProtocolVersion\<close> of the exchange record is not under
  src/. The specification: \<open>protocolVersion\<close> is fixed at creation and asserted on
  every transition to reject cross-version message injection.
\<close>

definition assertProtocolVersion :: "credentialExchangeRecord \<Rightarrow> string \<Rightarrow> error + unit" where
  "assertProtocolVersion r version =
     (if protocolVersion r = version then Inr () else Inl InvalidProtocolVersion)"

text \<open>
  Modelled from the spec: \<^verbatim>\<open>assertState\<close> of the exchange record is not under src/. The
  specification: a wrong current state for the requested step fails with
  \<^verbatim>\<open>InvalidStateTransition\<close>.
\<close>

definition assertState :: "credentialExchangeRecord \<Rightarrow> credentialState \<Rightarrow> error + unit" where
  "assertState r expected = (if state r = expected then Inr () else Inl InvalidStateTransition)"

text \<open>
  Modelled from the spec: \<^verbatim>\<open>update\<close> of the exchange record repository is not under
  src/. The specification: \<^verbatim>\<open>save/update(record)\<close> persist exchange-record state; the
  stored record that has the record's id is replaced.
\<close>

definition updateRecord ::
  "credentialExchangeRecord list \<Rightarrow> credentialExchangeRecord \<Rightarrow> credentialExchangeRecord list" where
  "updateRecord records r = map (\<lambda>x. if recordId x = recordId r then r else x) records"

text \<open>
  Modelled from the spec: \<^verbatim>\<open>updateState\<close> of the base protocol class is not under
  src/. The specification: the record is persisted in its new state and a
  state-changed event with the prior state is emitted.
\<close>

definition updateState ::
  "agentState \<Rightarrow> credentialExchangeRecord \<Rightarrow> credentialState \<Rightarrow> agentState \<times> credentialExchangeRecord" where
  "updateState s r newState =
     (let previousState = state r;
          r' = r\<lparr>state := newState\<rparr>
      in (s\<lparr>credentialRecords := updateRecord (credentialRecords s) r',
            stateChangedEvents := stateChangedEvents s @ [(r', Some previousState)]\<rparr>, r'))"

text \<open>
  Modelled from the spec: \<^verbatim>\<open>save\<close> of the exchange record repository and
  \<^verbatim>\<open>emitStateChangedEvent\<close> are not under src/. The specification: a new record is
  persisted and a state-changed event with \<^verbatim>\<open>previousState = null\<close> is emitted.
\<close>

definition saveRecord :: "agentState \<Rightarrow> credentialExchangeRecord \<Rightarrow> agentState" where
  "saveRecord s r =
     s\<lparr>credentialRecords := credentialRecords s @ [r],
       stateChangedEvents := stateChangedEvents s @ [(r, None)]\<rparr>"

text \<open>\<^verbatim>\<open>!credentialExchangeRecord.connectionId\<close>: an absent id and the empty string are falsy.\<close>

definition noConnectionId :: "credentialExchangeRecord \<Rightarrow> bool" where
  "noConnectionId r = (case connectionId r of None \<Rightarrow> True | Some c \<Rightarrow> c = [])"

text \<open>
  Modelled from the spec: \<^verbatim>\<open>composeAutoAccept\<close> is not under src/. The specification:
  the effective policy is \<^verbatim>\<open>record.autoAcceptPolicy ?? moduleDefault\<close>.
\<close>

definition composeAutoAccept :: "autoAcceptCredential option \<Rightarrow> autoAcceptCredential \<Rightarrow> autoAcceptCredential" where
  "composeAutoAccept recordConfig agentConfig =
     (case recordConfig of Some a \<Rightarrow> a | None \<Rightarrow> agentConfig)"

text \<open>
  Modelled from the spec: \<^verbatim>\<open>arePreviewAttributesEqual\<close> is not under src/. The
  specification: the attribute sets are exactly equal (same names and values,
  order-independent).
\<close>

definition arePreviewAttributesEqual ::
  "credentialPreviewAttribute list \<Rightarrow> credentialPreviewAttribute list \<Rightarrow> bool" where
  "arePreviewAttributesEqual firstAttributes secondAttributes =
     (set firstAttributes = set secondAttributes)"

subsection \<open>Auto-accept decisions\<close>

text \<open>The truthiness of an optional object: \<^verbatim>\<open>undefined\<close> is falsy, an object is truthy.\<close>

definition isPresent :: "'a option \<Rightarrow> bool" where
  "isPresent x = (case x of None \<Rightarrow> False | Some y \<Rightarrow> True)"

text \<open>
  The loop \<^verbatim>\<open>for (const formatService of formatServices)\<close> of the four decision
  methods: \<open>ask\<close> is the loop body up to the answer of the format service (looking
  up the attachments may throw); the first answer \<open>False\<close> returns \<open>False\<close>.
\<close>

fun autoRespondLoop :: "('s \<Rightarrow> error + bool) \<Rightarrow> 's list \<Rightarrow> error + bool" where
  "autoRespondLoop ask [] = Inr True"
| "autoRespondLoop ask (formatService # rest) =
     (case ask formatService of
        Inl e \<Rightarrow> Inl e
      | Inr shouldAutoRespondToFormat \<Rightarrow>
          if \<not> shouldAutoRespondToFormat then Inr False else autoRespondLoop ask rest)"

definition attachmentFor ::
  "'s v2DidCommCredentialProtocol \<Rightarrow> 's \<Rightarrow> v2CredentialMessage \<Rightarrow> error + attachment" where
  "attachmentFor P formatService m =
     getAttachmentForService (credentialFormatCoordinator P) formatService
       (formats m) (messageAttachments m)"


definition askProposal ::
  "'s v2DidCommCredentialProtocol \<Rightarrow> credentialExchangeRecord \<Rightarrow> v2CredentialMessage \<Rightarrow>
   v2CredentialMessage \<Rightarrow> 's \<Rightarrow> error + bool" where
  "askProposal P r offerMessage proposalMessage formatService =
     (case attachmentFor P formatService offerMessage of
        Inl e \<Rightarrow> Inl e
      | Inr offerAttachment \<Rightarrow>
          (case attachmentFor P formatService proposalMessage of
             Inl e \<Rightarrow> Inl e
           | Inr proposalAttachment \<Rightarrow>
               Inr (fs_shouldAutoRespondToProposal (formatServiceOps P) formatService r
                      offerAttachment proposalAttachment)))"

definition shouldAutoRespondToProposal ::
  "'s v2DidCommCredentialProtocol \<Rightarrow> didCommMessageRecord list \<Rightarrow> credentialExchangeRecord \<Rightarrow>
   v2CredentialMessage \<Rightarrow> error + bool" where
  "shouldAutoRespondToProposal P msgs r proposalMessage =
     (let autoAccept = composeAutoAccept (autoAcceptCredential r) (autoAcceptCredentials P)
      in if autoAccept = Always then Inr True
         else if autoAccept = Never then Inr False
         else
           (case findOfferMessage msgs (recordId r) of
              None \<Rightarrow> Inr False
            | Some offerMessage \<Rightarrow>
                (let formatServices = getFormatServicesFromMessage P (formats offerMessage)
                 in case autoRespondLoop (askProposal P r offerMessage proposalMessage)
                           formatServices of
                      Inl e \<Rightarrow> Inl e
                    | Inr False \<Rightarrow> Inr False
                    | Inr True \<Rightarrow>
                        if isPresent (credentialPreview proposalMessage)
                           \<or> isPresent (credentialPreview offerMessage)
                        then
                          (case (credentialPreview proposalMessage, credentialPreview offerMessage) of
                             (Some proposalAttributes, Some offerAttributes) \<Rightarrow>
                               Inr (arePreviewAttributesEqual proposalAttributes offerAttributes)
                           | _ \<Rightarrow> Inr False)
                        else Inr True)))"

definition askOffer ::
  "'s v2DidCommCredentialProtocol \<Rightarrow> credentialExchangeRecord \<Rightarrow> v2CredentialMessage \<Rightarrow>
   v2CredentialMessage \<Rightarrow> 's \<Rightarrow> error + bool" where
  "askOffer P r offerMessage proposalMessage formatService =
     (case attachmentFor P formatService offerMessage of
        Inl e \<Rightarrow> Inl e
      | Inr offerAttachment \<Rightarrow>
          (case attachmentFor P formatService proposalMessage of
             Inl e \<Rightarrow> Inl e
           | Inr proposalAttachment \<Rightarrow>
               Inr (fs_shouldAutoRespondToOffer (formatServiceOps P) formatService r
                      offerAttachment proposalAttachment)))"

text \<open>\<^verbatim>\<open>credentialPreview?.attributes ?? []\<close>.\<close>

definition attributesOrEmpty ::
  "credentialPreviewAttribute list option \<Rightarrow> credentialPreviewAttribute list" where
  "attributesOrEmpty preview = (case preview of None \<Rightarrow> [] | Some attributes \<Rightarrow> attributes)"

definition shouldAutoRespondToOffer ::
  "'s v2DidCommCredentialProtocol \<Rightarrow> didCommMessageRecord list \<Rightarrow> credentialExchangeRecord \<Rightarrow>
   v2CredentialMessage \<Rightarrow> error + bool" where
  "shouldAutoRespondToOffer P msgs r offerMessage =
     (let autoAccept = composeAutoAccept (autoAcceptCredential r) (autoAcceptCredentials P)
      in if autoAccept = Always then Inr True
         else if autoAccept = Never then Inr False
         else
           (case findProposalMessage msgs (recordId r) of
              None \<Rightarrow> Inr False
            | Some proposalMessage \<Rightarrow>
                (let formatServices = getFormatServicesFromMessage P (formats proposalMessage)
                 in case autoRespondLoop (askOffer P r offerMessage proposalMessage)
                           formatServices of
                      Inl e \<Rightarrow> Inl e
                    | Inr False \<Rightarrow> Inr False
                    | Inr True \<Rightarrow>
                        if isPresent (credentialPreview proposalMessage)
                           \<or> isPresent (credentialPreview offerMessage)
                        then Inr (arePreviewAttributesEqual
                                    (attributesOrEmpty (credentialPreview proposalMessage))
                                    (attributesOrEmpty (credentialPreview offerMessage)))
                        else Inr True)))"





subsection \<open>Accepting and negotiating\<close>

text \<open>
  The methods take the store, the exchange record the caller holds, the keys of the
  \<^verbatim>\<open>credentialFormats\<close> option and the \<^verbatim>\<open>autoAcceptCredential\<close> option, and return the
  outcome with the new store. Nothing is written before the last step, so a call that
  throws returns the store it was given.
\<close>

text \<open>
  The format services of \<^verbatim>\<open>acceptProposal\<close>: those of the caller's \<^verbatim>\<open>credentialFormats\<close>
  (\<^verbatim>\<open>credentialFormats ?? {}\<close>), and when there are none, those of the proposal message
  stored for the record with role \<^verbatim>\<open>Receiver\<close>; no service at all is an error.
\<close>

definition acceptProposal_formatServices ::
  "'s v2DidCommCredentialProtocol \<Rightarrow> didCommMessageRecord list \<Rightarrow> credentialExchangeRecord \<Rightarrow>
   string list option \<Rightarrow> error + 's list" where
  "acceptProposal_formatServices P msgs r credentialFormatKeys =
     (let formatServices =
            getFormatServices P (case credentialFormatKeys of None \<Rightarrow> [] | Some ks \<Rightarrow> ks)
      in case (if length formatServices = 0
               then (case getAgentMessage msgs (recordId r) V2ProposeCredentialMessage (Some Receiver) of
                       Inl e \<Rightarrow> Inl e
                     | Inr proposalMessage \<Rightarrow>
                         Inr (getFormatServicesFromMessage P (formats proposalMessage)))
               else Inr formatServices) of
           Inl e \<Rightarrow> Inl e
         | Inr formatServices' \<Rightarrow>
             if length formatServices' = 0 then Inl NoSupportedFormats
             else Inr formatServices')"

definition acceptProposal ::
  "'s v2DidCommCredentialProtocol \<Rightarrow> agentState \<Rightarrow> credentialExchangeRecord \<Rightarrow>
   string list option \<Rightarrow> autoAcceptCredential option \<Rightarrow>
   (error + (credentialExchangeRecord \<times> v2CredentialMessage)) \<times> agentState" where
  "acceptProposal P s r credentialFormatKeys autoAccept =
     (case assertProtocolVersion r ''v2'' of
        Inl e \<Rightarrow> (Inl e, s)
      | Inr u \<Rightarrow>
     (case assertState r ProposalReceived of
        Inl e \<Rightarrow> (Inl e, s)
      | Inr u \<Rightarrow>
     (case acceptProposal_formatServices P (didCommMessages s) r credentialFormatKeys of
        Inl e \<Rightarrow> (Inl e, s)
      | Inr formatServices \<Rightarrow>
     (case co_acceptProposal (credentialFormatCoordinator P) (didCommMessages s) r formatServices
             credentialFormatKeys of
        Inl e \<Rightarrow> (Inl e, s)
      | Inr (msg, msgs') \<Rightarrow>
          (let r' = r\<lparr>autoAcceptCredential :=
                        (case autoAccept of Some a \<Rightarrow> Some a | None \<Rightarrow> autoAcceptCredential r)\<rparr>
           in case updateState (s\<lparr>didCommMessages := msgs'\<rparr>) r' OfferSent of
                (s', r'') \<Rightarrow> (Inr (r'', msg), s'))))))"

definition negotiateProposal ::
  "'s v2DidCommCredentialProtocol \<Rightarrow> agentState \<Rightarrow> credentialExchangeRecord \<Rightarrow>
   string list \<Rightarrow> autoAcceptCredential option \<Rightarrow>
   (error + (credentialExchangeRecord \<times> v2CredentialMessage)) \<times> agentState" where
  "negotiateProposal P s r credentialFormatKeys autoAccept =
     (case assertProtocolVersion r ''v2'' of
        Inl e \<Rightarrow> (Inl e, s)
      | Inr u \<Rightarrow>
     (case assertState r ProposalReceived of
        Inl e \<Rightarrow> (Inl e, s)
      | Inr u \<Rightarrow>
     if noConnectionId r then (Inl NegotiationNotSupported, s)
     else
       (let formatServices = getFormatServices P credentialFormatKeys
        in if length formatServices = 0 then (Inl NoSupportedFormats, s)
           else
             (case co_createOffer (credentialFormatCoordinator P) (didCommMessages s) r formatServices
                     (Some credentialFormatKeys) of
                Inl e \<Rightarrow> (Inl e, s)
              | Inr (msg, msgs') \<Rightarrow>
                  (let r' = r\<lparr>autoAcceptCredential :=
                                (case autoAccept of Some a \<Rightarrow> Some a
                                 | None \<Rightarrow> autoAcceptCredential r)\<rparr>
                   in case updateState (s\<lparr>didCommMessages := msgs'\<rparr>) r' OfferSent of
                        (s', r'') \<Rightarrow> (Inr (r'', msg), s'))))))"

text \<open>
  The format services of \<^verbatim>\<open>acceptOffer\<close>: those of the caller's \<^verbatim>\<open>credentialFormats\<close>
  (\<^verbatim>\<open>credentialFormats ?? {}\<close>), and when there are none, those of the offer message
  stored for the record with role \<^verbatim>\<open>Receiver\<close>; no service at all is an error.
\<close>

definition acceptOffer_formatServices ::
  "'s v2DidCommCredentialProtocol \<Rightarrow> didCommMessageRecord list \<Rightarrow> credentialExchangeRecord \<Rightarrow>
   string list option \<Rightarrow> error + 's list" where
  "acceptOffer_formatServices P msgs r credentialFormatKeys =
     (let formatServices =
            getFormatServices P (case credentialFormatKeys of None \<Rightarrow> [] | Some ks \<Rightarrow> ks)
      in case (if length formatServices = 0
               then (case getAgentMessage msgs (recordId r) V2OfferCredentialMessage (Some Receiver) of
                       Inl e \<Rightarrow> Inl e
                     | Inr offerMessage \<Rightarrow>
                         Inr (getFormatServicesFromMessage P (formats offerMessage)))
               else Inr formatServices) of
           Inl e \<Rightarrow> Inl e
         | Inr formatServices' \<Rightarrow>
             if length formatServices' = 0 then Inl NoSupportedFormats
             else Inr formatServices')"

definition acceptOffer ::
  "'s v2DidCommCredentialProtocol \<Rightarrow> agentState \<Rightarrow> credentialExchangeRecord \<Rightarrow>
   string list option \<Rightarrow> autoAcceptCredential option \<Rightarrow>
   (error + (credentialExchangeRecord \<times> v2CredentialMessage)) \<times> agentState" where
  "acceptOffer P s r credentialFormatKeys autoAccept =
     (case assertProtocolVersion r ''v2'' of
        Inl e \<Rightarrow> (Inl e, s)
      | Inr u \<Rightarrow>
     (case assertState r OfferReceived of
        Inl e \<Rightarrow> (Inl e, s)
      | Inr u \<Rightarrow>
     (case acceptOffer_formatServices P (didCommMessages s) r credentialFormatKeys of
        Inl e \<Rightarrow> (Inl e, s)
      | Inr formatServices \<Rightarrow>
     (case co_acceptOffer (credentialFormatCoordinator P) (didCommMessages s) r formatServices
             credentialFormatKeys of
        Inl e \<Rightarrow> (Inl e, s)
      | Inr (msg, msgs') \<Rightarrow>
          (let r' = r\<lparr>autoAcceptCredential :=
                        (case autoAccept of Some a \<Rightarrow> Some a | None \<Rightarrow> autoAcceptCredential r)\<rparr>
           in case updateState (s\<lparr>didCommMessages := msgs'\<rparr>) r' RequestSent of
                (s', r'') \<Rightarrow> (Inr (r'', msg), s'))))))"

definition negotiateOffer ::
  "'s v2DidCommCredentialProtocol \<Rightarrow> agentState \<Rightarrow> credentialExchangeRecord \<Rightarrow>
   string list \<Rightarrow> autoAcceptCredential option \<Rightarrow>
   (error + (credentialExchangeRecord \<times> v2CredentialMessage)) \<times> agentState" where
  "negotiateOffer P s r credentialFormatKeys autoAccept =
     (case assertProtocolVersion r ''v2'' of
        Inl e \<Rightarrow> (Inl e, s)
      | Inr u \<Rightarrow>
     (case assertState r OfferReceived of
        Inl e \<Rightarrow> (Inl e, s)
      | Inr u \<Rightarrow>
     if noConnectionId r then (Inl NegotiationNotSupported, s)
     else
       (let formatServices = getFormatServices P credentialFormatKeys
        in if length formatServices = 0 then (Inl NoSupportedFormats, s)
           else
             (case co_createProposal (credentialFormatCoordinator P) (didCommMessages s) r formatServices
                     (Some credentialFormatKeys) of
                Inl e \<Rightarrow> (Inl e, s)
              | Inr (msg, msgs') \<Rightarrow>
                  (let r' = r\<lparr>autoAcceptCredential :=
                                (case autoAccept of Some a \<Rightarrow> Some a
                                 | None \<Rightarrow> autoAcceptCredential r)\<rparr>
                   in case updateState (s\<lparr>didCommMessages := msgs'\<rparr>) r' ProposalSent of
                        (s', r'') \<Rightarrow> (Inr (r'', msg), s'))))))"

text \<open>
  The format services of \<^verbatim>\<open>acceptRequest\<close>: those of the caller's \<^verbatim>\<open>credentialFormats\<close>
  (\<^verbatim>\<open>credentialFormats ?? {}\<close>), and when there are none, those of the request message
  stored for the record with role \<^verbatim>\<open>Receiver\<close>; no service at all is an error.
\<close>

definition acceptRequest_formatServices ::
  "'s v2DidCommCredentialProtocol \<Rightarrow> didCommMessageRecord list \<Rightarrow> credentialExchangeRecord \<Rightarrow>
   string list option \<Rightarrow> error + 's list" where
  "acceptRequest_formatServices P msgs r credentialFormatKeys =
     (let formatServices =
            getFormatServices P (case credentialFormatKeys of None \<Rightarrow> [] | Some ks \<Rightarrow> ks)
      in case (if length formatServices = 0
               then (case getAgentMessage msgs (recordId r) V2RequestCredentialMessage (Some Receiver) of
                       Inl e \<Rightarrow> Inl e
                     | Inr requestMessage \<Rightarrow>
                         Inr (getFormatServicesFromMessage P (formats requestMessage)))
               else Inr formatServices) of
           Inl e \<Rightarrow> Inl e
         | Inr formatServices' \<Rightarrow>
             if length formatServices' = 0 then Inl NoSupportedFormats
             else Inr formatServices')"

definition acceptRequest ::
  "'s v2DidCommCredentialProtocol \<Rightarrow> agentState \<Rightarrow> credentialExchangeRecord \<Rightarrow>
   string list option \<Rightarrow> autoAcceptCredential option \<Rightarrow>
   (error + (credentialExchangeRecord \<times> v2CredentialMessage)) \<times> agentState" where
  "acceptRequest P s r credentialFormatKeys autoAccept =
     (case assertProtocolVersion r ''v2'' of
        Inl e \<Rightarrow> (Inl e, s)
      | Inr u \<Rightarrow>
     (case assertState r RequestReceived of
        Inl e \<Rightarrow> (Inl e, s)
      | Inr u \<Rightarrow>
     (case acceptRequest_formatServices P (didCommMessages s) r credentialFormatKeys of
        Inl e \<Rightarrow> (Inl e, s)
      | Inr formatServices \<Rightarrow>
     (case co_acceptRequest (credentialFormatCoordinator P) (didCommMessages s) r formatServices
             credentialFormatKeys of
        Inl e \<Rightarrow> (Inl e, s)
      | Inr (msg, msgs') \<Rightarrow>
          (let r' = r\<lparr>autoAcceptCredential :=
                        (case autoAccept of Some a \<Rightarrow> Some a | None \<Rightarrow> autoAcceptCredential r)\<rparr>
           in case updateState (s\<lparr>didCommMessages := msgs'\<rparr>) r' CredentialIssued of
                (s', r'') \<Rightarrow> (Inr (r'', msg), s'))))))"

subsection \<open>Processing inbound messages\<close>

text \<open>
  \<open>newId\<close> is the id generated for a record that is created. The record found is a
  copy the method works on; it is written back by \<open>updateState\<close> only, so a call
  that throws returns the store it was given.
\<close>

definition processProposal ::
  "'s v2DidCommCredentialProtocol \<Rightarrow> agentState \<Rightarrow> string \<Rightarrow>
   v2CredentialMessage inboundMessageContext \<Rightarrow> (error + credentialExchangeRecord) \<times> agentState" where
  "processProposal P s newId messageContext =
     (let proposalMessage = message messageContext;
          found = findByProperties (credentialRecords s) (msgThreadId proposalMessage) Issuer None;
          formatServices = getFormatServicesFromMessage P (formats proposalMessage)
      in if length formatServices = 0 then (Inl NoSupportedFormats, s)
         else
           (case found of
              Some credentialExchangeRecord \<Rightarrow>
                (let proposeCredentialMessage =
                       findAgentMessage (didCommMessages s) (recordId credentialExchangeRecord)
                         V2ProposeCredentialMessage (Some Receiver);
                     offerCredentialMessage =
                       findAgentMessage (didCommMessages s) (recordId credentialExchangeRecord)
                         V2OfferCredentialMessage (Some Sender)
                 in
                 (case assertProtocolVersion credentialExchangeRecord ''v2'' of
                    Inl e \<Rightarrow> (Inl e, s)
                  | Inr u \<Rightarrow>
                 (case assertState credentialExchangeRecord OfferSent of
                    Inl e \<Rightarrow> (Inl e, s)
                  | Inr u \<Rightarrow>
                 (case assertConnectionOrOutOfBandExchange (connectionServiceOps P) messageContext
                         proposeCredentialMessage offerCredentialMessage
                         (connectionId credentialExchangeRecord) of
                    Inl e \<Rightarrow> (Inl e, s)
                  | Inr u \<Rightarrow>
                 (case (if noConnectionId credentialExchangeRecord
                    then (case matchIncomingMessageToRequestMessageInOutOfBandExchange
                                 (connectionServiceOps P) messageContext
                                 (connectionId credentialExchangeRecord) of
                            Inl e \<Rightarrow> Inl e
                          | Inr u \<Rightarrow>
                              Inr (credentialExchangeRecord
                                     \<lparr>connectionId := map_option connId (connection messageContext)\<rparr>))
                    else Inr credentialExchangeRecord) of
                    Inl e \<Rightarrow> (Inl e, s)
                  | Inr r1 \<Rightarrow>
                 (case co_processProposal (credentialFormatCoordinator P) (didCommMessages s) r1
                         formatServices proposalMessage of
                    Inl e \<Rightarrow> (Inl e, s)
                  | Inr msgs' \<Rightarrow>
                      (case updateState (s\<lparr>didCommMessages := msgs'\<rparr>) r1 ProposalReceived of
                         (s', r2) \<Rightarrow> (Inr r2, s'))))))))
            | None \<Rightarrow>
                (case assertConnectionOrOutOfBandExchange (connectionServiceOps P) messageContext
                        None None None of
                   Inl e \<Rightarrow> (Inl e, s)
                 | Inr u \<Rightarrow>
                     (let credentialExchangeRecord =
                            \<lparr>recordId = newId,
                             connectionId = map_option connId (connection messageContext),
                             threadId = msgThreadId proposalMessage,
                             parentThreadId = msgParentThreadId proposalMessage,
                             state = ProposalReceived,
                             role = Issuer,
                             autoAcceptCredential = None,
                             protocolVersion = ''v2''\<rparr>
                      in case co_processProposal (credentialFormatCoordinator P) (didCommMessages s)
                                credentialExchangeRecord formatServices proposalMessage of
                           Inl e \<Rightarrow> (Inl e, s)
                         | Inr msgs' \<Rightarrow>
                             (Inr credentialExchangeRecord,
                              saveRecord (s\<lparr>didCommMessages := msgs'\<rparr>)
                                credentialExchangeRecord)))))"

definition processOffer ::
  "'s v2DidCommCredentialProtocol \<Rightarrow> agentState \<Rightarrow> string \<Rightarrow>
   v2CredentialMessage inboundMessageContext \<Rightarrow> (error + credentialExchangeRecord) \<times> agentState" where
  "processOffer P s newId messageContext =
     (let offerMessage = message messageContext;
          found = findByProperties (credentialRecords s) (msgThreadId offerMessage) Holder (map_option connId (connection messageContext));
          formatServices = getFormatServicesFromMessage P (formats offerMessage)
      in if length formatServices = 0 then (Inl NoSupportedFormats, s)
         else
           (case found of
              Some credentialExchangeRecord \<Rightarrow>
                (let proposeCredentialMessage =
                       findAgentMessage (didCommMessages s) (recordId credentialExchangeRecord)
                         V2ProposeCredentialMessage (Some Sender);
                     offerCredentialMessage =
                       findAgentMessage (didCommMessages s) (recordId credentialExchangeRecord)
                         V2OfferCredentialMessage (Some Receiver)
                 in
                 (case assertProtocolVersion credentialExchangeRecord ''v2'' of
                    Inl e \<Rightarrow> (Inl e, s)
                  | Inr u \<Rightarrow>
                 (case assertState credentialExchangeRecord ProposalSent of
                    Inl e \<Rightarrow> (Inl e, s)
                  | Inr u \<Rightarrow>
                 (case assertConnectionOrOutOfBandExchange (connectionServiceOps P) messageContext
                         offerCredentialMessage proposeCredentialMessage
                         (connectionId credentialExchangeRecord) of
                    Inl e \<Rightarrow> (Inl e, s)
                  | Inr u \<Rightarrow>
                 (case Inr credentialExchangeRecord of
                    Inl e \<Rightarrow> (Inl e, s)
                  | Inr r1 \<Rightarrow>
                 (case co_processOffer (credentialFormatCoordinator P) (didCommMessages s) r1
                         formatServices offerMessage of
                    Inl e \<Rightarrow> (Inl e, s)
                  | Inr msgs' \<Rightarrow>
                      (case updateState (s\<lparr>didCommMessages := msgs'\<rparr>) r1 OfferReceived of
                         (s', r2) \<Rightarrow> (Inr r2, s'))))))))
            | None \<Rightarrow>
                (case assertConnectionOrOutOfBandExchange (connectionServiceOps P) messageContext
                        None None None of
                   Inl e \<Rightarrow> (Inl e, s)
                 | Inr u \<Rightarrow>
                     (let credentialExchangeRecord =
                            \<lparr>recordId = newId,
                             connectionId = map_option connId (connection messageContext),
                             threadId = msgThreadId offerMessage,
                             parentThreadId = msgParentThreadId offerMessage,
                             state = OfferReceived,
                             role = Holder,
                             autoAcceptCredential = None,
                             protocolVersion = ''v2''\<rparr>
                      in case co_processOffer (credentialFormatCoordinator P) (didCommMessages s)
                                credentialExchangeRecord formatServices offerMessage of
                           Inl e \<Rightarrow> (Inl e, s)
                         | Inr msgs' \<Rightarrow>
                             (Inr credentialExchangeRecord,
                              saveRecord (s\<lparr>didCommMessages := msgs'\<rparr>)
                                credentialExchangeRecord)))))"

definition processRequest ::
  "'s v2DidCommCredentialProtocol \<Rightarrow> agentState \<Rightarrow> string \<Rightarrow>
   v2CredentialMessage inboundMessageContext \<Rightarrow> (error + credentialExchangeRecord) \<times> agentState" where
  "processRequest P s newId messageContext =
     (let requestMessage = message messageContext;
          found = findByProperties (credentialRecords s) (msgThreadId requestMessage) Issuer None;
          formatServices = getFormatServicesFromMessage P (formats requestMessage)
      in if length formatServices = 0 then (Inl NoSupportedFormats, s)
         else
           (case found of
              Some credentialExchangeRecord \<Rightarrow>
                (let proposeCredentialMessage =
                       findAgentMessage (didCommMessages s) (recordId credentialExchangeRecord)
                         V2ProposeCredentialMessage (Some Receiver);
                     offerCredentialMessage =
                       findAgentMessage (didCommMessages s) (recordId credentialExchangeRecord)
                         V2OfferCredentialMessage (Some Sender)
                 in
                 (case assertProtocolVersion credentialExchangeRecord ''v2'' of
                    Inl e \<Rightarrow> (Inl e, s)
                  | Inr u \<Rightarrow>
                 (case assertState credentialExchangeRecord OfferSent of
                    Inl e \<Rightarrow> (Inl e, s)
                  | Inr u \<Rightarrow>
                 (case assertConnectionOrOutOfBandExchange (connectionServiceOps P) messageContext
                         proposeCredentialMessage offerCredentialMessage
                         (connectionId credentialExchangeRecord) of
                    Inl e \<Rightarrow> (Inl e, s)
                  | Inr u \<Rightarrow>
                 (case (if noConnectionId credentialExchangeRecord
                    then (case matchIncomingMessageToRequestMessageInOutOfBandExchange
                                 (connectionServiceOps P) messageContext
                                 (connectionId credentialExchangeRecord) of
                            Inl e \<Rightarrow> Inl e
                          | Inr u \<Rightarrow>
                              Inr (credentialExchangeRecord
                                     \<lparr>connectionId := map_option connId (connection messageContext)\<rparr>))
                    else Inr credentialExchangeRecord) of
                    Inl e \<Rightarrow> (Inl e, s)
                  | Inr r1 \<Rightarrow>
                 (case co_processRequest (credentialFormatCoordinator P) (didCommMessages s) r1
                         formatServices requestMessage of
                    Inl e \<Rightarrow> (Inl e, s)
                  | Inr msgs' \<Rightarrow>
                      (case updateState (s\<lparr>didCommMessages := msgs'\<rparr>) r1 RequestReceived of
                         (s', r2) \<Rightarrow> (Inr r2, s'))))))))
            | None \<Rightarrow>
                (case assertConnectionOrOutOfBandExchange (connectionServiceOps P) messageContext
                        None None None of
                   Inl e \<Rightarrow> (Inl e, s)
                 | Inr u \<Rightarrow>
                     (let credentialExchangeRecord =
                            \<lparr>recordId = newId,
                             connectionId = map_option connId (connection messageContext),
                             threadId = msgThreadId requestMessage,
                             parentThreadId = msgParentThreadId requestMessage,
                             state = RequestReceived,
                             role = Issuer,
                             autoAcceptCredential = None,
                             protocolVersion = ''v2''\<rparr>
                      in case co_processRequest (credentialFormatCoordinator P) (didCommMessages s)
                                credentialExchangeRecord formatServices requestMessage of
                           Inl e \<Rightarrow> (Inl e, s)
                         | Inr msgs' \<Rightarrow>
                             (Inr credentialExchangeRecord,
                              saveRecord (s\<lparr>didCommMessages := msgs'\<rparr>)
                                credentialExchangeRecord)))))"

section \<open>Concrete inputs\<close>

text \<open>Inputs at which the theorems below are instantiated and evaluated.\<close>

definition ex_conn :: connectionRecord where
  "ex_conn = \<lparr>connId = ''c1'', isReady = True\<rparr>"

definition ex_agentContext :: agentContext where
  "ex_agentContext = \<lparr>contextCorrelationId = ''default''\<rparr>"

definition ex_statusContext :: "int \<Rightarrow> v2StatusMessage inboundMessageContext" where
  "ex_statusContext n =
     \<lparr>message = \<lparr>st_threadId = ''t1'', st_recipientKey = None, st_messageCount = n,
                 st_liveDelivery = None\<rparr>,
      connection = Some ex_conn, inboundAgentContext = ex_agentContext\<rparr>"


definition ex_receivedContext :: "string list \<Rightarrow> v2MessagesReceivedMessage inboundMessageContext" where
  "ex_receivedContext ids =
     \<lparr>message = \<lparr>mr_threadId = ''t1'', mr_messageIdList = ids\<rparr>,
      connection = Some ex_conn, inboundAgentContext = ex_agentContext\<rparr>"

definition ex_uuid :: string where
  "ex_uuid = ''9b2c7d1e-5f3a-4c8b-a1d2-3e4f5a6b7c8d''"

definition ex_rows :: "messageRow list" where
  "ex_rows = [\<lparr>uuid = ex_uuid, connection_id = ''c1'', timestamp = 1, payload = ''p1''\<rparr>]"


text \<open>A connection that is not ready, and inbound messages arriving over it.\<close>

definition ex_notReady :: connectionRecord where
  "ex_notReady = \<lparr>connId = ''c2'', isReady = False\<rparr>"

definition ex_notReadyStatus :: "v2StatusMessage inboundMessageContext" where
  "ex_notReadyStatus =
     \<lparr>message = \<lparr>st_threadId = ''t1'', st_recipientKey = None, st_messageCount = 0,
                 st_liveDelivery = None\<rparr>,
      connection = Some ex_notReady, inboundAgentContext = ex_agentContext\<rparr>"


definition ex_notReadyReceived :: "string list \<Rightarrow> v2MessagesReceivedMessage inboundMessageContext" where
  "ex_notReadyReceived ids =
     \<lparr>message = \<lparr>mr_threadId = ''t1'', mr_messageIdList = ids\<rparr>,
      connection = Some ex_notReady, inboundAgentContext = ex_agentContext\<rparr>"

definition ex_deliveryRequestContext :: "v2DeliveryRequestMessage inboundMessageContext" where
  "ex_deliveryRequestContext =
     \<lparr>message = \<lparr>dr_threadId = ''t1'', dr_recipientKey = None, dr_limit = 1\<rparr>,
      connection = Some ex_conn, inboundAgentContext = ex_agentContext\<rparr>"

text \<open>
  A queue repository that only records the mutating calls made on it; its count is the
  constant \<open>n\<close>.
\<close>

datatype queueCall =
    TakeFromQueueCall string "string option" "int option" "bool option"
  | RemoveMessagesCall string "string list"

definition recordingRepository :: "int \<Rightarrow> queueCall list queueTransportMessageRepository" where
  "recordingRepository n =
     \<lparr>getAvailableMessageCount = (\<lambda>calls c r. Inr n),
      takeFromQueue = (\<lambda>calls c r l k. (Inr [], calls @ [TakeFromQueueCall c r l k])),
      removeMessages = (\<lambda>calls c ids. (Inr (), calls @ [RemoveMessagesCall c ids]))\<rparr>"

text \<open>
  A protocol instance for the examples. The format services are named by their key and
  support the format of the same name; \<open>answer\<close> is what a service answers to every
  auto-accept question. The coordinator of the examples resolves an attachment through
  the format entry of the service, builds a message with one format entry and one
  attachment per service and stores it as sent, and stores a processed message as
  received. The connection service accepts every message.
\<close>

definition ex_getAttachmentForService ::
  "string \<Rightarrow> credentialFormatSpec list \<Rightarrow> attachment list \<Rightarrow> error + attachment" where
  "ex_getAttachmentForService sv fs atts =
     (case List.find (\<lambda>f. format f = sv) fs of
        None \<Rightarrow> Inl AttachmentLookupFailed
      | Some f \<Rightarrow>
          (case List.find (\<lambda>a. attachmentId a = specAttachmentId f) atts of
             None \<Rightarrow> Inl AttachmentLookupFailed
           | Some a \<Rightarrow> Inr a))"

definition ex_message ::
  "messageClass \<Rightarrow> string list \<Rightarrow> credentialPreviewAttribute list option \<Rightarrow> v2CredentialMessage" where
  "ex_message cls fmts preview =
     \<lparr>messageId = ''m1'', messageClass = cls, msgThreadId = ''t1'', msgParentThreadId = None,
      formats = map (\<lambda>f. \<lparr>specAttachmentId = f, format = f\<rparr>) fmts,
      messageAttachments = map (\<lambda>f. \<lparr>attachmentId = f, lastmodTime = None, dataJson = f\<rparr>) fmts,
      credentialPreview = preview\<rparr>"

definition ex_build :: "messageClass \<Rightarrow> string createStep" where
  "ex_build cls msgs r svs cf =
     Inr (ex_message cls svs None,
          msgs @ [\<lparr>associatedRecordId = recordId r, messageRole = Sender,
                   agentMessage = ex_message cls svs None\<rparr>])"

definition ex_store :: "string processStep" where
  "ex_store msgs r svs m =
     Inr (msgs @ [\<lparr>associatedRecordId = recordId r, messageRole = Receiver, agentMessage = m\<rparr>])"

definition ex_protocol :: "(string \<Rightarrow> bool) \<Rightarrow> string v2DidCommCredentialProtocol" where
  "ex_protocol answer =
     \<lparr>credentialFormats = [''F1'', ''F2''],
      formatServiceOps =
        \<lparr>formatKey = (\<lambda>sv. sv),
         supportsFormat = (\<lambda>sv f. sv = f),
         fs_shouldAutoRespondToProposal = (\<lambda>sv r a b. answer sv),
         fs_shouldAutoRespondToOffer = (\<lambda>sv r a b. answer sv),
         fs_shouldAutoRespondToRequest = (\<lambda>sv r a b c. answer sv),
         fs_shouldAutoRespondToCredential = (\<lambda>sv r a b c d. answer sv)\<rparr>,
      credentialFormatCoordinator =
        \<lparr>getAttachmentForService = ex_getAttachmentForService,
         co_createProposal = ex_build V2ProposeCredentialMessage,
         co_processProposal = ex_store,
         co_acceptProposal = ex_build V2OfferCredentialMessage,
         co_createOffer = ex_build V2OfferCredentialMessage,
         co_processOffer = ex_store,
         co_acceptOffer = ex_build V2RequestCredentialMessage,
         co_processRequest = ex_store,
         co_acceptRequest = ex_build V2IssueCredentialMessage\<rparr>,
      connectionServiceOps =
        \<lparr>assertConnectionOrOutOfBandExchange = (\<lambda>ctx lastReceived lastSent expected. Inr ()),
         matchIncomingMessageToRequestMessageInOutOfBandExchange = (\<lambda>ctx expected. Inr ())\<rparr>,
      autoAcceptCredentials = ContentApproved\<rparr>"

definition ex_record ::
  "credentialRole \<Rightarrow> credentialState \<Rightarrow> string option \<Rightarrow> credentialExchangeRecord" where
  "ex_record rl st cid =
     \<lparr>recordId = ''r1'', connectionId = cid, threadId = ''t1'', parentThreadId = None,
      state = st, role = rl, autoAcceptCredential = None, protocolVersion = ''v2''\<rparr>"

definition ex_stored :: "didCommMessageRole \<Rightarrow> v2CredentialMessage \<Rightarrow> didCommMessageRecord" where
  "ex_stored rl m = \<lparr>associatedRecordId = ''r1'', messageRole = rl, agentMessage = m\<rparr>"

text \<open>
  The issuer sent an offer with format \<open>F1\<close> only and received a request that attaches
  \<open>F1\<close> and \<open>F2\<close>.
\<close>

definition ex_issuerState :: agentState where
  "ex_issuerState =
     \<lparr>credentialRecords = [ex_record Issuer RequestReceived (Some ''c1'')],
      didCommMessages =
        [ex_stored Sender (ex_message V2OfferCredentialMessage [''F1''] None),
         ex_stored Receiver (ex_message V2RequestCredentialMessage [''F1'', ''F2''] None)],
      stateChangedEvents = []\<rparr>"

definition ex_negotiationState ::
  "credentialRole \<Rightarrow> credentialState \<Rightarrow> string option \<Rightarrow> agentState" where
  "ex_negotiationState rl st cid =
     \<lparr>credentialRecords = [ex_record rl st cid], didCommMessages = [], stateChangedEvents = []\<rparr>"

text \<open>
  An offer with format \<open>F1\<close> arriving over connection \<open>c1\<close>, and the holder's store
  after the offer was processed once from an empty store.
\<close>

definition ex_offerContext :: "v2CredentialMessage inboundMessageContext" where
  "ex_offerContext =
     \<lparr>message = ex_message V2OfferCredentialMessage [''F1''] None,
      connection = Some ex_conn, inboundAgentContext = ex_agentContext\<rparr>"

text \<open>The same offer with a format that no format service supports.\<close>

definition ex_unsupportedOfferContext :: "v2CredentialMessage inboundMessageContext" where
  "ex_unsupportedOfferContext =
     \<lparr>message = ex_message V2OfferCredentialMessage [''F9''] None,
      connection = Some ex_conn, inboundAgentContext = ex_agentContext\<rparr>"

definition ex_emptyState :: agentState where
  "ex_emptyState = \<lparr>credentialRecords = [], didCommMessages = [], stateChangedEvents = []\<rparr>"

definition ex_holderState :: agentState where
  "ex_holderState =
     \<lparr>credentialRecords = [ex_record Holder OfferReceived (Some ''c1'')],
      didCommMessages = [ex_stored Receiver (ex_message V2OfferCredentialMessage [''F1''] None)],
      stateChangedEvents = [(ex_record Holder OfferReceived (Some ''c1''), None)]\<rparr>"

text \<open>
  The holder sent a proposal with format \<open>F1\<close> and preview \<open>preview\<close>; the service
  \<open>F1\<close> answers \<open>False\<close> in \<open>ex_refusing\<close>.
\<close>

definition ex_sentProposal :: "credentialPreviewAttribute list option \<Rightarrow> didCommMessageRecord list" where
  "ex_sentProposal preview = [ex_stored Sender (ex_message V2ProposeCredentialMessage [''F1''] preview)]"

definition ex_sentOffer :: "credentialPreviewAttribute list option \<Rightarrow> didCommMessageRecord list" where
  "ex_sentOffer preview = [ex_stored Sender (ex_message V2OfferCredentialMessage [''F1''] preview)]"


definition ex_attribute :: "string \<Rightarrow> string \<Rightarrow> credentialPreviewAttribute" where
  "ex_attribute n v = \<lparr>attributeName = n, attributeValue = v\<rparr>"

section \<open>Predicates used in the statements\<close>

text \<open>
  The format services an accept call uses when the caller names none: those of the
  received message, when it is stored and at least one service resolves.
\<close>

definition fallbackServices ::
  "'s v2DidCommCredentialProtocol \<Rightarrow> error + v2CredentialMessage \<Rightarrow> error + 's list" where
  "fallbackServices P received =
     (case received of
        Inl e \<Rightarrow> Inl e
      | Inr m \<Rightarrow> if getFormatServicesFromMessage P (formats m) = [] then Inl NoSupportedFormats
                 else Inr (getFormatServicesFromMessage P (formats m)))"

text \<open>\<^verbatim>\<open>autoAcceptCredential ?? credentialExchangeRecord.autoAcceptCredential\<close> on the record.\<close>

definition withAutoAccept ::
  "credentialExchangeRecord \<Rightarrow> autoAcceptCredential option \<Rightarrow> credentialExchangeRecord" where
  "withAutoAccept r autoAccept =
     r\<lparr>autoAcceptCredential :=
         (case autoAccept of Some a \<Rightarrow> Some a | None \<Rightarrow> autoAcceptCredential r)\<rparr>"

text \<open>
  What processing an inbound message does with the record store, given the outcome
  \<open>found\<close> of the lookup and whether a format of the message resolves to a service
  (\<open>supported\<close>): a call that throws leaves the store as it was; with no supported
  format the call fails with \<^verbatim>\<open>NoSupportedFormats\<close>, whatever the lookup found; when a
  record was found the store keeps exactly its records (by id), success requires version
  \<open>v2\<close> and the state \<open>expected\<close> and returns that record in the state \<open>new\<close>, and
  with a supported format a wrong version or state is the error of the respective
  assertion; when none was found, success appends the one record returned.
\<close>

definition matchedOrCreated ::
  "credentialState \<Rightarrow> credentialState \<Rightarrow> bool \<Rightarrow> credentialExchangeRecord option \<Rightarrow> agentState \<Rightarrow>
   (error + credentialExchangeRecord) \<times> agentState \<Rightarrow> bool" where
  "matchedOrCreated expected new supported found s result =
     ((\<forall>e. fst result = Inl e \<longrightarrow> snd result = s)
      \<and> (\<not> supported \<longrightarrow> result = (Inl NoSupportedFormats, s))
      \<and> (case found of
           Some x \<Rightarrow>
             map recordId (credentialRecords (snd result)) = map recordId (credentialRecords s)
             \<and> (\<forall>r'. fst result = Inr r' \<longrightarrow>
                   protocolVersion x = ''v2'' \<and> state x = expected
                   \<and> recordId r' = recordId x \<and> state r' = new)
             \<and> (supported \<and> protocolVersion x \<noteq> ''v2'' \<longrightarrow> fst result = Inl InvalidProtocolVersion)
             \<and> (supported \<and> protocolVersion x = ''v2'' \<and> state x \<noteq> expected \<longrightarrow>
                   fst result = Inl InvalidStateTransition)
         | None \<Rightarrow>
             (\<forall>r'. fst result = Inr r' \<longrightarrow>
                   credentialRecords (snd result) = credentialRecords s @ [r'] \<and> state r' = new)))"

text \<open>
  The outcome \<open>result\<close> of an accept call that falls back to the received message of
  class \<open>cls\<close>: \<^verbatim>\<open>NotFound\<close> when it is not stored, \<^verbatim>\<open>NoSupportedFormats\<close> when none of
  its formats resolves, both with the store unchanged; else what the coordinator step
  \<open>step\<close> returns for the services resolved from it, the record moving to \<open>new\<close>.
\<close>

definition fallbackCall ::
  "'s v2DidCommCredentialProtocol \<Rightarrow> 's createStep \<Rightarrow> credentialState \<Rightarrow> messageClass \<Rightarrow>
   agentState \<Rightarrow> credentialExchangeRecord \<Rightarrow> string list option \<Rightarrow> autoAcceptCredential option \<Rightarrow>
   (error + (credentialExchangeRecord \<times> v2CredentialMessage)) \<times> agentState \<Rightarrow> bool" where
  "fallbackCall P step new cls s r credentialFormatKeys autoAccept result =
     (case getAgentMessage (didCommMessages s) (recordId r) cls (Some Receiver) of
        Inl e \<Rightarrow> result = (Inl NotFound, s)
      | Inr m \<Rightarrow>
          if getFormatServicesFromMessage P (formats m) = []
          then result = (Inl NoSupportedFormats, s)
          else fst result =
                 (case step (didCommMessages s) r (getFormatServicesFromMessage P (formats m))
                         credentialFormatKeys of
                    Inl e \<Rightarrow> Inl e
                  | Inr (msg, msgs') \<Rightarrow> Inr ((withAutoAccept r autoAccept)\<lparr>state := new\<rparr>, msg)))"







section \<open>Properties of the message pickup protocol\<close>

lemma assertReady_statusContext: "assertReadyConnection (ex_statusContext n) = Inr ex_conn"
  by (simp add: assertReadyConnection_def ex_statusContext_def ex_conn_def)


lemma assertReady_receivedContext: "assertReadyConnection (ex_receivedContext a) = Inr ex_conn"
  by (simp add: assertReadyConnection_def ex_receivedContext_def ex_conn_def)

lemma isCanonicalUuid_ex_uuid: "isCanonicalUuid ex_uuid"
  by (simp add: isCanonicalUuid_def ex_uuid_def isHexDigit_def)

text \<open>
  With \<^verbatim>\<open>keepMessages\<close> set, \<^verbatim>\<open>takeFromQueue\<close> of the PostgreSQL repository is a peek:
  the table is returned as it was, so the count is unchanged and the same call returns
  the same messages again.
\<close>

lemma asyncTakeFromQueue_keepMessages:
  "snd (asyncTakeFromQueue d rows c recipientDid limit (Some True)) = rows"
  by (simp add: asyncTakeFromQueue_def takeResults_def Let_def split: option.splits)

text \<open>
  Without \<^verbatim>\<open>keepMessages\<close> every message it returns is removed from the table.
\<close>

lemma takeResults_removes:
  assumes "set results \<subseteq> set rows"
    and "\<forall>r\<in>set rows. isCanonicalUuid (uuid r)"
    and "takeResults d rows c None results = (Inr messages, rows')"
  shows "rows' = filter (\<lambda>r. uuid r \<notin> set (map queuedId messages)) rows"
proof -
  let ?taken = "filter (\<lambda>r. uuid r \<noteq> [] \<and> payload r \<noteq> []) results"
  from assms(1,2) have "list_all isCanonicalUuid (map uuid ?taken)"
    by (auto simp: list_all_iff)
  with assms(3) show ?thesis
    by (auto simp: takeResults_def asyncRemoveMessages_def Let_def image_image
        split: if_splits)
qed

lemma asyncTakeFromQueue_removes:
  assumes "\<forall>r\<in>set rows. isCanonicalUuid (uuid r)"
    and "asyncTakeFromQueue d rows c recipientDid limit None = (Inr messages, rows')"
  shows "rows' = filter (\<lambda>r. uuid r \<notin> set (map queuedId messages)) rows"
proof -
  let ?selected = "sort_key timestamp (filter (\<lambda>r. connection_id r = c) rows)"
  have all: "set ?selected \<subseteq> set rows" by auto
  have some: "set (take n ?selected) \<subseteq> set rows" for n
    using set_take_subset [of n ?selected] all by blast
  from assms(2) consider
      "takeResults d rows c None ?selected = (Inr messages, rows')"
    | n where "takeResults d rows c None (take n ?selected) = (Inr messages, rows')"
    by (auto simp: asyncTakeFromQueue_def Let_def split: option.splits if_splits)
  then show ?thesis
  proof cases
    case 1
    from takeResults_removes [OF all assms(1) 1] show ?thesis .
  next
    case 2
    from takeResults_removes [OF some assms(1) 2] show ?thesis .
  qed
qed

text \<open>
  Claim C2, evaluated on the code. \<^verbatim>\<open>processDeliveryRequest\<close> calls \<^verbatim>\<open>takeFromQueue\<close>
  without \<^verbatim>\<open>keepMessages\<close>, and \<^verbatim>\<open>PostgreSQLMessageRepository\<close> removes what it returns
  unless \<^verbatim>\<open>keepMessages\<close> is set. With one message queued for connection \<open>c1\<close> and a
  delivery request of limit 1, the message is delivered, the available count drops from
  1 to 0, and a later take that keeps messages finds nothing: the delivery request did
  not peek, it removed.
\<close>

theorem C2_processDeliveryRequest_removes:
  "getAvailableMessageCount (PostgreSQLMessageRepository d) ex_rows ''c1'' None = Inr 1
   \<and> processDeliveryRequest (PostgreSQLMessageRepository d) (\<lambda>k. k) ex_rows
        ex_deliveryRequestContext =
       (Inr \<lparr>outboundMessage =
               DeliveryMessage \<lparr>md_threadId = ''t1'', md_recipientKey = None,
                 md_appendedAttachments =
                   Some [\<lparr>attachmentId = ex_uuid, lastmodTime = None, dataJson = ''p1''\<rparr>]\<rparr>,
             outboundConnection = ex_conn\<rparr>, [])
   \<and> getAvailableMessageCount (PostgreSQLMessageRepository d)
         (snd (processDeliveryRequest (PostgreSQLMessageRepository d) (\<lambda>k. k) ex_rows
                 ex_deliveryRequestContext)) ''c1'' None = Inr 0
   \<and> fst (takeFromQueue (PostgreSQLMessageRepository d)
         (snd (processDeliveryRequest (PostgreSQLMessageRepository d) (\<lambda>k. k) ex_rows
                 ex_deliveryRequestContext)) ''c1'' None (Some 1) (Some True)) = Inr []"
proof -
  have nonempty: "ex_uuid \<noteq> []" by (simp add: ex_uuid_def)
  show ?thesis
    by (simp add: processDeliveryRequest_def PostgreSQLMessageRepository_def
        asyncGetAvailableMessageCount_def asyncTakeFromQueue_def takeResults_def
        asyncRemoveMessages_def ex_rows_def ex_deliveryRequestContext_def
        assertReadyConnection_def ex_conn_def recipientDidOf_def toAttachment_def Let_def
        isCanonicalUuid_ex_uuid nonempty)
qed

text \<open>
  Claim C7 as stated fails: a status message that reports \<open>messageCount = 0\<close> (which is
  below the maximum batch size 10) gets no delivery request at all; \<^verbatim>\<open>processStatus\<close>
  returns \<^verbatim>\<open>null\<close> and emits the completion event.
\<close>

theorem C7_zero_count_counterexample:
  "processStatus 10 ''m1'' (ex_statusContext 0) =
     Inr (None, [MessagePickupCompleted ex_conn ''t1''])"
  by (simp add: processStatus_def assertReady_statusContext) (simp add: ex_statusContext_def)

text \<open>
  Claim C7, amended: for every inbound status message with a non-zero \<open>messageCount\<close>
  on a ready connection, \<^verbatim>\<open>processStatus\<close> returns a delivery request whose limit is the
  reported \<open>messageCount\<close> when that is below \<open>maximumBatchSize\<close> and \<open>maximumBatchSize\<close>
  otherwise; the limit never exceeds \<open>maximumBatchSize\<close>.
\<close>

theorem C7_processStatus_limit:
  assumes "assertReadyConnection messageContext = Inr conn"
    and "st_messageCount (message messageContext) \<noteq> 0"
  shows "\<exists>req. processStatus maximumBatchSize newId messageContext = Inr (Some req, [])
           \<and> dr_limit req = (if st_messageCount (message messageContext) < maximumBatchSize
                             then st_messageCount (message messageContext) else maximumBatchSize)
           \<and> dr_limit req \<le> maximumBatchSize
           \<and> dr_recipientKey req = st_recipientKey (message messageContext)"
  using assms by (simp add: processStatus_def Let_def)

theorem C7_processStatus_limit_witness:
  "assertReadyConnection (ex_statusContext 15) = Inr ex_conn
   \<and> st_messageCount (message (ex_statusContext 15)) \<noteq> 0
   \<and> (\<exists>req. processStatus 10 ''m1'' (ex_statusContext 15) = Inr (Some req, []) \<and> dr_limit req = 10)"
proof -
  have r: "assertReadyConnection (ex_statusContext 15) = Inr ex_conn"
    by (rule assertReady_statusContext)
  have n: "st_messageCount (message (ex_statusContext 15)) \<noteq> 0"
    by (simp add: ex_statusContext_def)
  from C7_processStatus_limit [OF r n, of 10 "''m1''"] obtain req where
    "processStatus 10 ''m1'' (ex_statusContext 15) = Inr (Some req, [])"
    "dr_limit req = (if st_messageCount (message (ex_statusContext 15)) < 10
                     then st_messageCount (message (ex_statusContext 15)) else 10)"
    by blast
  then have "processStatus 10 ''m1'' (ex_statusContext 15) = Inr (Some req, []) \<and> dr_limit req = 10"
    by (simp add: ex_statusContext_def)
  with r n show ?thesis by blast
qed

text \<open>
  Claim C8 as stated fails: the connection is asserted to be ready before the count is
  looked at, so a status message with \<open>messageCount = 0\<close> that arrives over a connection
  that is not ready makes \<^verbatim>\<open>processStatus\<close> and the handler throw; no event is emitted.
\<close>

theorem C8_not_ready_counterexample:
  "st_messageCount (message ex_notReadyStatus) = 0
   \<and> processStatus 10 ''m1'' ex_notReadyStatus = Inl ConnectionNotReady
   \<and> V2StatusHandler_handle 10 ''m1'' ex_notReadyStatus = Inl ConnectionNotReady"
  by (simp add: processStatus_def V2StatusHandler_handle_def assertReadyConnection_def
      ex_notReadyStatus_def ex_notReady_def)

text \<open>
  Claim C8, amended: for every inbound status message received over a ready connection
  whose \<open>messageCount\<close> is zero, \<^verbatim>\<open>processStatus\<close> emits one \<^verbatim>\<open>MessagePickupCompleted\<close>
  event carrying the connection and the thread id of the status message, and returns no
  delivery request; the handler then produces no outbound message. Both calls return
  normally.
\<close>

theorem C8_zero_count_completes:
  assumes "assertReadyConnection messageContext = Inr conn"
    and "st_messageCount (message messageContext) = 0"
  shows "processStatus maximumBatchSize newId messageContext =
           Inr (None, [MessagePickupCompleted conn (st_threadId (message messageContext))])
         \<and> V2StatusHandler_handle maximumBatchSize newId messageContext =
           Inr (None, [MessagePickupCompleted conn (st_threadId (message messageContext))])"
  using assms by (simp add: processStatus_def V2StatusHandler_handle_def Let_def)

theorem C8_zero_count_completes_witness:
  "assertReadyConnection (ex_statusContext 0) = Inr ex_conn
   \<and> st_messageCount (message (ex_statusContext 0)) = 0
   \<and> V2StatusHandler_handle 10 ''m1'' (ex_statusContext 0) =
       Inr (None, [MessagePickupCompleted ex_conn ''t1''])"
proof -
  have r: "assertReadyConnection (ex_statusContext 0) = Inr ex_conn"
    by (rule assertReady_statusContext)
  have n: "st_messageCount (message (ex_statusContext 0)) = 0"
    by (simp add: ex_statusContext_def)
  from C8_zero_count_completes [OF r n, of 10 "''m1''"] r n show ?thesis
    by (simp add: ex_statusContext_def)
qed






text \<open>
  Claim C10 as stated fails: the connection is asserted to be ready first, so over a
  connection that is not ready no status message is returned for an empty
  \<open>messageIdList\<close>, and for a list that is not empty \<^verbatim>\<open>removeMessages\<close> is not invoked.
\<close>

theorem C10_not_ready_counterexample:
  "processMessagesReceived (recordingRepository 1) [] (ex_notReadyReceived [])
     = (Inl ConnectionNotReady, [])
   \<and> processMessagesReceived (recordingRepository 1) [] (ex_notReadyReceived [ex_uuid])
     = (Inl ConnectionNotReady, [])"
  by (simp add: processMessagesReceived_def assertReadyConnection_def ex_notReadyReceived_def
      ex_notReady_def)

text \<open>
  Claim C10, amended: for an inbound messages-received message received over a ready
  connection, with any queue repository. When \<open>messageIdList\<close> is empty the store is
  returned as it was, no mutating call reaches the repository, and the reply is a
  status message with the count the repository reports for the connection. When the
  list is not empty the store is the one \<^verbatim>\<open>removeMessages\<close> returns for the connection
  and exactly the ids of the list, and that is the only mutating call.
\<close>

theorem C10_processMessagesReceived_removal:
  assumes "assertReadyConnection messageContext = Inr conn"
  shows "(mr_messageIdList (message messageContext) = [] \<longrightarrow>
            snd (processMessagesReceived repo q messageContext) = q
            \<and> snd (processMessagesReceived (recordingRepository n) [] messageContext) = []
            \<and> (\<forall>k. getAvailableMessageCount repo q (connId conn) None = Inr k \<longrightarrow>
                  fst (processMessagesReceived repo q messageContext) =
                    Inr \<lparr>outboundMessage =
                           \<lparr>st_threadId = mr_threadId (message messageContext),
                            st_recipientKey = None, st_messageCount = k,
                            st_liveDelivery = None\<rparr>,
                         outboundConnection = conn\<rparr>))
         \<and> (mr_messageIdList (message messageContext) \<noteq> [] \<longrightarrow>
            snd (processMessagesReceived repo q messageContext) =
              snd (removeMessages repo q (connId conn) (mr_messageIdList (message messageContext)))
            \<and> snd (processMessagesReceived (recordingRepository n) [] messageContext) =
              [RemoveMessagesCall (connId conn) (mr_messageIdList (message messageContext))])"
  using assms
  by (auto simp: processMessagesReceived_def recordingRepository_def split: sum.splits prod.splits)

theorem C10_processMessagesReceived_removal_witness:
  "assertReadyConnection (ex_receivedContext []) = Inr ex_conn
   \<and> mr_messageIdList (message (ex_receivedContext [])) = []
   \<and> snd (processMessagesReceived (PostgreSQLMessageRepository (\<lambda>rows ids. (Inl QueryFailed, rows)))
            ex_rows (ex_receivedContext [])) = ex_rows
   \<and> fst (processMessagesReceived (PostgreSQLMessageRepository (\<lambda>rows ids. (Inl QueryFailed, rows)))
            ex_rows (ex_receivedContext [])) =
       Inr \<lparr>outboundMessage = \<lparr>st_threadId = ''t1'', st_recipientKey = None, st_messageCount = 1,
                                 st_liveDelivery = None\<rparr>,
            outboundConnection = ex_conn\<rparr>
   \<and> assertReadyConnection (ex_receivedContext [ex_uuid]) = Inr ex_conn
   \<and> mr_messageIdList (message (ex_receivedContext [ex_uuid])) \<noteq> []
   \<and> snd (processMessagesReceived (recordingRepository 0) [] (ex_receivedContext [ex_uuid])) =
       [RemoveMessagesCall ''c1'' [ex_uuid]]
   \<and> snd (processMessagesReceived (PostgreSQLMessageRepository (\<lambda>rows ids. (Inl QueryFailed, rows)))
            ex_rows (ex_receivedContext [ex_uuid])) = []"
proof -
  let ?R = "PostgreSQLMessageRepository (\<lambda>rows ids. (Inl QueryFailed, rows))"
  have e: "mr_messageIdList (message (ex_receivedContext [])) = []"
    and t: "mr_threadId (message (ex_receivedContext [])) = ''t1''"
    and ne: "mr_messageIdList (message (ex_receivedContext [ex_uuid])) \<noteq> []"
    and ids: "mr_messageIdList (message (ex_receivedContext [ex_uuid])) = [ex_uuid]"
    by (simp_all add: ex_receivedContext_def)
  have cnt: "getAvailableMessageCount ?R ex_rows (connId ex_conn) None = Inr 1"
    by (simp add: PostgreSQLMessageRepository_def asyncGetAvailableMessageCount_def ex_rows_def
        ex_conn_def)
  have rm: "snd (removeMessages ?R ex_rows (connId ex_conn) [ex_uuid]) = []"
    by (simp add: PostgreSQLMessageRepository_def asyncRemoveMessages_def ex_rows_def
        isCanonicalUuid_ex_uuid)
  have c: "connId ex_conn = ''c1''" by (simp add: ex_conn_def)
  from C10_processMessagesReceived_removal
         [OF assertReady_receivedContext, of "[]" ?R ex_rows 0]
       C10_processMessagesReceived_removal
         [OF assertReady_receivedContext, of "[ex_uuid]" ?R ex_rows 0]
       e ne cnt rm assertReady_receivedContext [of "[]"] assertReady_receivedContext [of "[ex_uuid]"]
  show ?thesis by (simp add: t ids c)
qed

section \<open>Properties of the issue-credential protocol\<close>

lemmas ex_simps =
  ex_protocol_def ex_message_def ex_build_def ex_store_def ex_record_def ex_stored_def
  ex_getAttachmentForService_def

lemmas format_simps =
  getFormatServices_def getFormatServicesFromMessage_def getFormatServiceForFormat_def
  getFormatServiceForFormatKey_def setAdd_def findAgentMessage_def getAgentMessage_def

subsection \<open>Format services of a message\<close>

lemma foldl_setAdd_set:
  "set (foldl (\<lambda>acc x. case g x of Some sv \<Rightarrow> setAdd acc sv | None \<Rightarrow> acc) acc0 xs)
     = set acc0 \<union> {sv. \<exists>x\<in>set xs. g x = Some sv}"
  by (induction xs arbitrary: acc0) (auto simp: setAdd_def split: option.splits)

lemma foldl_setAdd_distinct:
  "distinct acc0 \<Longrightarrow>
   distinct (foldl (\<lambda>acc x. case g x of Some sv \<Rightarrow> setAdd acc sv | None \<Rightarrow> acc) acc0 xs)"
  by (induction xs arbitrary: acc0) (auto simp: setAdd_def split: option.splits)

lemma set_getFormatServicesFromMessage:
  "set (getFormatServicesFromMessage P fs)
     = {sv. \<exists>f\<in>set fs. getFormatServiceForFormat P (format f) = Some sv}"
  unfolding getFormatServicesFromMessage_def
  using foldl_setAdd_set [of "\<lambda>msg. getFormatServiceForFormat P (format msg)" "[]" fs] by simp

lemma distinct_getFormatServicesFromMessage: "distinct (getFormatServicesFromMessage P fs)"
  unfolding getFormatServicesFromMessage_def
  using foldl_setAdd_distinct [of "[]" "\<lambda>msg. getFormatServiceForFormat P (format msg)" fs] by simp

subsection \<open>Accepting without explicit formats\<close>

text \<open>
  Claim C1 as stated fails. The issuer sent an offer with format \<open>F1\<close> only; the request
  it received attaches \<open>F1\<close> and \<open>F2\<close>. The format services of \<^verbatim>\<open>acceptRequest\<close>
  without explicit formats are those of the received request, \<open>F1\<close> and \<open>F2\<close>, not
  those of the offer: a format that appears only in the inbound request is used.
\<close>

theorem C1_acceptRequest_counterexample:
  "findAgentMessage (didCommMessages ex_issuerState) ''r1'' V2OfferCredentialMessage (Some Sender)
     = Some (ex_message V2OfferCredentialMessage [''F1''] None)
   \<and> getFormatServicesFromMessage (ex_protocol (\<lambda>sv. True))
       (formats (ex_message V2OfferCredentialMessage [''F1''] None)) = [''F1'']
   \<and> acceptRequest_formatServices (ex_protocol (\<lambda>sv. True)) (didCommMessages ex_issuerState)
       (ex_record Issuer RequestReceived (Some ''c1'')) None = Inr [''F1'', ''F2'']"
  by (simp add: acceptRequest_formatServices_def ex_simps ex_issuerState_def format_simps)

text \<open>
  Claim C1, amended: when the caller supplies no explicit credential formats (absent, or
  resolving to no format service), the format services of \<^verbatim>\<open>acceptRequest\<close> are exactly
  those resolved from the formats of the request message received for the record
  (stored with role \<^verbatim>\<open>Receiver\<close>), each once, and not those of the offer this agent
  sent; \<^verbatim>\<open>acceptOffer\<close> falls back in the same way to the received offer and
  \<^verbatim>\<open>acceptProposal\<close> to the received proposal. On a record of version \<open>v2\<close> in the
  state the accept is valid from, the call fails with \<^verbatim>\<open>NotFound\<close> when that message
  is not stored and with \<^verbatim>\<open>NoSupportedFormats\<close> when none of its formats resolves, the
  store unchanged; otherwise these services are the ones handed to the format
  coordinator, and the call returns what the coordinator returns for them.
\<close>

theorem C1_accept_fallback_received:
  assumes "getFormatServices P (case credentialFormatKeys of None \<Rightarrow> [] | Some ks \<Rightarrow> ks) = []"
  shows "acceptRequest_formatServices P msgs r credentialFormatKeys =
           fallbackServices P
             (getAgentMessage msgs (recordId r) V2RequestCredentialMessage (Some Receiver))
       \<and> acceptOffer_formatServices P msgs r credentialFormatKeys =
           fallbackServices P
             (getAgentMessage msgs (recordId r) V2OfferCredentialMessage (Some Receiver))
       \<and> acceptProposal_formatServices P msgs r credentialFormatKeys =
           fallbackServices P
             (getAgentMessage msgs (recordId r) V2ProposeCredentialMessage (Some Receiver))
       \<and> (\<forall>fs. set (getFormatServicesFromMessage P fs)
                  = {sv. \<exists>f\<in>set fs. getFormatServiceForFormat P (format f) = Some sv}
                \<and> distinct (getFormatServicesFromMessage P fs))
       \<and> (protocolVersion r = ''v2'' \<and> state r = RequestReceived \<longrightarrow>
            fallbackCall P (co_acceptRequest (credentialFormatCoordinator P)) CredentialIssued
              V2RequestCredentialMessage s r credentialFormatKeys autoAccept
              (acceptRequest P s r credentialFormatKeys autoAccept))
       \<and> (protocolVersion r = ''v2'' \<and> state r = OfferReceived \<longrightarrow>
            fallbackCall P (co_acceptOffer (credentialFormatCoordinator P)) RequestSent
              V2OfferCredentialMessage s r credentialFormatKeys autoAccept
              (acceptOffer P s r credentialFormatKeys autoAccept))
       \<and> (protocolVersion r = ''v2'' \<and> state r = ProposalReceived \<longrightarrow>
            fallbackCall P (co_acceptProposal (credentialFormatCoordinator P)) OfferSent
              V2ProposeCredentialMessage s r credentialFormatKeys autoAccept
              (acceptProposal P s r credentialFormatKeys autoAccept))"
proof -
  have services:
    "acceptRequest_formatServices P msgs r credentialFormatKeys =
       fallbackServices P
         (getAgentMessage msgs (recordId r) V2RequestCredentialMessage (Some Receiver))"
    "acceptOffer_formatServices P msgs r credentialFormatKeys =
       fallbackServices P
         (getAgentMessage msgs (recordId r) V2OfferCredentialMessage (Some Receiver))"
    "acceptProposal_formatServices P msgs r credentialFormatKeys =
       fallbackServices P
         (getAgentMessage msgs (recordId r) V2ProposeCredentialMessage (Some Receiver))"
    for msgs
    using assms
    by (simp_all add: acceptRequest_formatServices_def acceptOffer_formatServices_def
        acceptProposal_formatServices_def fallbackServices_def split: sum.splits)
  have resolved:
    "\<forall>fs. set (getFormatServicesFromMessage P fs)
            = {sv. \<exists>f\<in>set fs. getFormatServiceForFormat P (format f) = Some sv}
          \<and> distinct (getFormatServicesFromMessage P fs)"
    by (simp add: set_getFormatServicesFromMessage distinct_getFormatServicesFromMessage)
  have request:
    "protocolVersion r = ''v2'' \<and> state r = RequestReceived \<longrightarrow>
       fallbackCall P (co_acceptRequest (credentialFormatCoordinator P)) CredentialIssued
         V2RequestCredentialMessage s r credentialFormatKeys autoAccept
         (acceptRequest P s r credentialFormatKeys autoAccept)"
    by (auto simp: fallbackCall_def acceptRequest_def services fallbackServices_def
        getAgentMessage_def assertProtocolVersion_def assertState_def updateState_def
        withAutoAccept_def Let_def split: sum.splits option.splits)
  have offer:
    "protocolVersion r = ''v2'' \<and> state r = OfferReceived \<longrightarrow>
       fallbackCall P (co_acceptOffer (credentialFormatCoordinator P)) RequestSent
         V2OfferCredentialMessage s r credentialFormatKeys autoAccept
         (acceptOffer P s r credentialFormatKeys autoAccept)"
    by (auto simp: fallbackCall_def acceptOffer_def services fallbackServices_def
        getAgentMessage_def assertProtocolVersion_def assertState_def updateState_def
        withAutoAccept_def Let_def split: sum.splits option.splits)
  have proposal:
    "protocolVersion r = ''v2'' \<and> state r = ProposalReceived \<longrightarrow>
       fallbackCall P (co_acceptProposal (credentialFormatCoordinator P)) OfferSent
         V2ProposeCredentialMessage s r credentialFormatKeys autoAccept
         (acceptProposal P s r credentialFormatKeys autoAccept)"
    by (auto simp: fallbackCall_def acceptProposal_def services fallbackServices_def
        getAgentMessage_def assertProtocolVersion_def assertState_def updateState_def
        withAutoAccept_def Let_def split: sum.splits option.splits)
  from services [of msgs] resolved request offer proposal show ?thesis by blast
qed

text \<open>
  The witness: the issuer of the counterexample accepts the request without explicit
  formats, and the coordinator is called with \<open>F1\<close> and \<open>F2\<close>; an issuer that has no
  proposal stored fails to accept one with \<^verbatim>\<open>NotFound\<close>.
\<close>

theorem C1_accept_fallback_received_witness:
  "getFormatServices (ex_protocol (\<lambda>sv. True)) (case None of None \<Rightarrow> [] | Some ks \<Rightarrow> ks) = []
   \<and> acceptRequest_formatServices (ex_protocol (\<lambda>sv. True)) (didCommMessages ex_issuerState)
       (ex_record Issuer RequestReceived (Some ''c1'')) None = Inr [''F1'', ''F2'']
   \<and> fst (acceptRequest (ex_protocol (\<lambda>sv. True)) ex_issuerState
            (ex_record Issuer RequestReceived (Some ''c1'')) None None)
     = (case co_acceptRequest (credentialFormatCoordinator (ex_protocol (\<lambda>sv. True)))
               (didCommMessages ex_issuerState) (ex_record Issuer RequestReceived (Some ''c1''))
               [''F1'', ''F2''] None of
          Inl e \<Rightarrow> Inl e
        | Inr (msg, msgs') \<Rightarrow>
            Inr ((withAutoAccept (ex_record Issuer RequestReceived (Some ''c1'')) None)
                   \<lparr>state := CredentialIssued\<rparr>, msg))
   \<and> acceptProposal (ex_protocol (\<lambda>sv. True))
        (ex_negotiationState Issuer ProposalReceived (Some ''c1''))
        (ex_record Issuer ProposalReceived (Some ''c1'')) None None
     = (Inl NotFound, ex_negotiationState Issuer ProposalReceived (Some ''c1''))"
proof -
  let ?P = "ex_protocol (\<lambda>sv. True)"
  let ?r = "ex_record Issuer RequestReceived (Some ''c1'')"
  let ?q = "ex_record Issuer ProposalReceived (Some ''c1'')"
  let ?s = "ex_negotiationState Issuer ProposalReceived (Some ''c1'')"
  have h: "getFormatServices ?P (case None of None \<Rightarrow> [] | Some ks \<Rightarrow> ks) = []"
    by (simp add: getFormatServices_def)
  have a: "fallbackServices ?P
             (getAgentMessage (didCommMessages ex_issuerState) (recordId ?r)
                V2RequestCredentialMessage (Some Receiver)) = Inr [''F1'', ''F2'']"
    by (simp add: fallbackServices_def ex_simps ex_issuerState_def format_simps)
  have st: "protocolVersion ?r = ''v2'' \<and> state ?r = RequestReceived"
    and sq: "protocolVersion ?q = ''v2'' \<and> state ?q = ProposalReceived"
    by (simp_all add: ex_record_def)
  have got: "getAgentMessage (didCommMessages ex_issuerState) (recordId ?r)
               V2RequestCredentialMessage (Some Receiver)
             = Inr (ex_message V2RequestCredentialMessage [''F1'', ''F2''] None)"
    by (simp add: ex_simps ex_issuerState_def format_simps)
  have svs: "getFormatServicesFromMessage ?P
               (formats (ex_message V2RequestCredentialMessage [''F1'', ''F2''] None))
             = [''F1'', ''F2'']"
    by (simp add: ex_simps format_simps)
  have none: "getAgentMessage (didCommMessages ?s) (recordId ?q)
                V2ProposeCredentialMessage (Some Receiver) = Inl NotFound"
    by (simp add: ex_negotiationState_def format_simps)
  note t1 = C1_accept_fallback_received [OF h, of "didCommMessages ex_issuerState" ?r ex_issuerState None]
  note t2 = C1_accept_fallback_received [OF h, of "didCommMessages ?s" ?q ?s None]
  have r1: "acceptRequest_formatServices ?P (didCommMessages ex_issuerState) ?r None
              = Inr [''F1'', ''F2'']"
    using t1 a by simp
  have "fallbackCall ?P (co_acceptRequest (credentialFormatCoordinator ?P)) CredentialIssued
          V2RequestCredentialMessage ex_issuerState ?r None None
          (acceptRequest ?P ex_issuerState ?r None None)"
    using t1 st by blast
  then have r2: "fst (acceptRequest ?P ex_issuerState ?r None None)
     = (case co_acceptRequest (credentialFormatCoordinator ?P) (didCommMessages ex_issuerState) ?r
               [''F1'', ''F2''] None of
          Inl e \<Rightarrow> Inl e
        | Inr (msg, msgs') \<Rightarrow> Inr ((withAutoAccept ?r None)\<lparr>state := CredentialIssued\<rparr>, msg))"
    by (simp add: fallbackCall_def got svs)
  have "fallbackCall ?P (co_acceptProposal (credentialFormatCoordinator ?P)) OfferSent
          V2ProposeCredentialMessage ?s ?q None None (acceptProposal ?P ?s ?q None None)"
    using t2 sq by blast
  then have r3: "acceptProposal ?P ?s ?q None None = (Inl NotFound, ?s)"
    by (simp add: fallbackCall_def none)
  from h r1 r2 r3 show ?thesis by blast
qed

subsection \<open>Processing an inbound message for a known thread\<close>

lemma map_recordId_updateRecord: "map recordId (updateRecord records r) = map recordId records"
  by (induction records) (simp_all add: updateRecord_def)

lemma processOffer_matchedOrCreated:
  "matchedOrCreated ProposalSent OfferReceived
     (getFormatServicesFromMessage P (formats (message messageContext)) \<noteq> [])
     (findByProperties (credentialRecords s) (msgThreadId (message messageContext)) Holder
        (map_option connId (connection messageContext)))
     s (processOffer P s newId messageContext)"
  unfolding matchedOrCreated_def processOffer_def Let_def
  by (auto simp: assertProtocolVersion_def assertState_def updateState_def saveRecord_def Let_def
      map_recordId_updateRecord split: sum.splits option.splits if_splits)

lemma processProposal_matchedOrCreated:
  "matchedOrCreated OfferSent ProposalReceived
     (getFormatServicesFromMessage P (formats (message messageContext)) \<noteq> [])
     (findByProperties (credentialRecords s) (msgThreadId (message messageContext)) Issuer None)
     s (processProposal P s newId messageContext)"
  unfolding matchedOrCreated_def processProposal_def Let_def
  by (auto simp: assertProtocolVersion_def assertState_def updateState_def saveRecord_def Let_def
      map_recordId_updateRecord split: sum.splits option.splits if_splits)

lemma processRequest_matchedOrCreated:
  "matchedOrCreated OfferSent RequestReceived
     (getFormatServicesFromMessage P (formats (message messageContext)) \<noteq> [])
     (findByProperties (credentialRecords s) (msgThreadId (message messageContext)) Issuer None)
     s (processRequest P s newId messageContext)"
  unfolding matchedOrCreated_def processRequest_def Let_def
  by (auto simp: assertProtocolVersion_def assertState_def updateState_def saveRecord_def Let_def
      map_recordId_updateRecord split: sum.splits option.splits if_splits)

lemma findByProperties_exists:
  "(\<exists>found. findByProperties records t rl cid = Some found
        \<and> found \<in> set records \<and> threadId found = t \<and> role found = rl
        \<and> (\<forall>c. cid = Some c \<longrightarrow> connectionId found = Some c))
   \<longleftrightarrow> (\<exists>x\<in>set records. threadId x = t \<and> role x = rl
          \<and> (\<forall>c. cid = Some c \<longrightarrow> connectionId x = Some c))"
proof
  assume "\<exists>found. findByProperties records t rl cid = Some found
        \<and> found \<in> set records \<and> threadId found = t \<and> role found = rl
        \<and> (\<forall>c. cid = Some c \<longrightarrow> connectionId found = Some c)"
  then show "\<exists>x\<in>set records. threadId x = t \<and> role x = rl
          \<and> (\<forall>c. cid = Some c \<longrightarrow> connectionId x = Some c)" by blast
next
  assume "\<exists>x\<in>set records. threadId x = t \<and> role x = rl
          \<and> (\<forall>c. cid = Some c \<longrightarrow> connectionId x = Some c)"
  then have "findByProperties records t rl cid \<noteq> None"
    by (auto simp: findByProperties_def find_None_iff split: option.splits)
  then obtain found where f: "findByProperties records t rl cid = Some found" by blast
  then have "found \<in> set records \<and> threadId found = t \<and> role found = rl
        \<and> (\<forall>c. cid = Some c \<longrightarrow> connectionId found = Some c)"
    by (auto simp: findByProperties_def find_Some_iff split: option.splits)
  with f show "\<exists>found. findByProperties records t rl cid = Some found
        \<and> found \<in> set records \<and> threadId found = t \<and> role found = rl
        \<and> (\<forall>c. cid = Some c \<longrightarrow> connectionId found = Some c)" by blast
qed

text \<open>
  Claim C3 as stated fails: the formats of the message are resolved before the record's
  version and state are asserted. The holder's record for thread \<open>t1\<close> is in state
  \<^verbatim>\<open>OfferReceived\<close>, not the predecessor state \<^verbatim>\<open>ProposalSent\<close>; an offer for that thread
  whose only format resolves to no service is matched to the record and fails with
  \<^verbatim>\<open>NoSupportedFormats\<close>, not \<^verbatim>\<open>InvalidStateTransition\<close>.
\<close>

theorem C3_unsupported_format_counterexample:
  "findByProperties (credentialRecords ex_holderState)
     (msgThreadId (message ex_unsupportedOfferContext)) Holder
     (map_option connId (connection ex_unsupportedOfferContext))
     = Some (ex_record Holder OfferReceived (Some ''c1''))
   \<and> state (ex_record Holder OfferReceived (Some ''c1'')) \<noteq> ProposalSent
   \<and> processOffer (ex_protocol (\<lambda>sv. True)) ex_holderState ''r2'' ex_unsupportedOfferContext
     = (Inl NoSupportedFormats, ex_holderState)"
  by (simp add: processOffer_def findByProperties_def ex_holderState_def
      ex_unsupportedOfferContext_def ex_simps ex_conn_def format_simps Let_def)

text \<open>
  Claim C3, amended: \<^verbatim>\<open>processOffer\<close> looks the record up by thread id, role
  \<^verbatim>\<open>Holder\<close> and the connection of the message when there is one; \<^verbatim>\<open>processProposal\<close>
  and \<^verbatim>\<open>processRequest\<close> by thread id and role \<^verbatim>\<open>Issuer\<close>. The lookup finds a record
  exactly when the store holds one with that thread id and role (and connection, when
  given). When it finds one, no record is added whatever the outcome. A message none of
  whose formats resolves to a format service fails with \<^verbatim>\<open>NoSupportedFormats\<close> before
  anything is asserted. Otherwise the record's version and then its state are asserted:
  the call succeeds only if the record has version \<open>v2\<close> and is in the predecessor
  state, and then returns that record in the received state; a wrong version fails with
  the version error, and a wrong state of a \<open>v2\<close> record with
  \<^verbatim>\<open>InvalidStateTransition\<close>. A call that fails leaves the store unchanged. A record is
  created only when the lookup finds none.
\<close>

theorem C3_process_existing_record:
  "matchedOrCreated ProposalSent OfferReceived
     (getFormatServicesFromMessage P (formats (message messageContext)) \<noteq> [])
     (findByProperties (credentialRecords s) (msgThreadId (message messageContext)) Holder
        (map_option connId (connection messageContext)))
     s (processOffer P s newId messageContext)
   \<and> matchedOrCreated OfferSent ProposalReceived
     (getFormatServicesFromMessage P (formats (message messageContext)) \<noteq> [])
     (findByProperties (credentialRecords s) (msgThreadId (message messageContext)) Issuer None)
     s (processProposal P s newId messageContext)
   \<and> matchedOrCreated OfferSent RequestReceived
     (getFormatServicesFromMessage P (formats (message messageContext)) \<noteq> [])
     (findByProperties (credentialRecords s) (msgThreadId (message messageContext)) Issuer None)
     s (processRequest P s newId messageContext)
   \<and> ((\<exists>found. findByProperties (credentialRecords s) t rl cid = Some found
          \<and> found \<in> set (credentialRecords s) \<and> threadId found = t \<and> role found = rl
          \<and> (\<forall>c. cid = Some c \<longrightarrow> connectionId found = Some c))
      \<longleftrightarrow> (\<exists>x\<in>set (credentialRecords s). threadId x = t \<and> role x = rl
            \<and> (\<forall>c. cid = Some c \<longrightarrow> connectionId x = Some c)))"
  using processOffer_matchedOrCreated [of P messageContext s newId]
    processProposal_matchedOrCreated [of P messageContext s newId]
    processRequest_matchedOrCreated [of P messageContext s newId]
    findByProperties_exists [of "credentialRecords s" t rl cid]
  by blast

text \<open>
  The witness replays an offer: processed on the empty store it creates the holder's
  record; processed again on the resulting store it is matched to that record, rejected
  by the state assertion, and the store still holds the one record.
\<close>

theorem C3_process_existing_record_witness:
  "processOffer (ex_protocol (\<lambda>sv. True)) ex_emptyState ''r1'' ex_offerContext
     = (Inr (ex_record Holder OfferReceived (Some ''c1'')), ex_holderState)
   \<and> findByProperties (credentialRecords ex_holderState) ''t1'' Holder (Some ''c1'')
     = Some (ex_record Holder OfferReceived (Some ''c1''))
   \<and> fst (processOffer (ex_protocol (\<lambda>sv. True)) ex_holderState ''r2'' ex_offerContext)
     = Inl InvalidStateTransition
   \<and> snd (processOffer (ex_protocol (\<lambda>sv. True)) ex_holderState ''r2'' ex_offerContext)
     = ex_holderState"
proof -
  let ?P = "ex_protocol (\<lambda>sv. True)"
  let ?res = "processOffer ?P ex_holderState ''r2'' ex_offerContext"
  have first: "processOffer ?P ex_emptyState ''r1'' ex_offerContext
     = (Inr (ex_record Holder OfferReceived (Some ''c1'')), ex_holderState)"
    by (simp add: processOffer_def ex_simps ex_emptyState_def ex_offerContext_def
        ex_holderState_def ex_conn_def format_simps findByProperties_def saveRecord_def Let_def)
  have look: "findByProperties (credentialRecords ex_holderState)
                (msgThreadId (message ex_offerContext)) Holder
                (map_option connId (connection ex_offerContext))
              = Some (ex_record Holder OfferReceived (Some ''c1''))"
    by (simp add: findByProperties_def ex_holderState_def ex_offerContext_def ex_record_def
        ex_message_def ex_conn_def)
  have sup: "getFormatServicesFromMessage ?P (formats (message ex_offerContext)) \<noteq> []"
    by (simp add: ex_simps ex_offerContext_def format_simps)
  have st: "protocolVersion (ex_record Holder OfferReceived (Some ''c1'')) = ''v2''
            \<and> state (ex_record Holder OfferReceived (Some ''c1'')) \<noteq> ProposalSent"
    by (simp add: ex_record_def)
  have "matchedOrCreated ProposalSent OfferReceived
          (getFormatServicesFromMessage ?P (formats (message ex_offerContext)) \<noteq> [])
          (Some (ex_record Holder OfferReceived (Some ''c1''))) ex_holderState ?res"
    using C3_process_existing_record [of ?P ex_offerContext ex_holderState "''r2''"] look
    by simp
  with sup st have "fst ?res = Inl InvalidStateTransition \<and> snd ?res = ex_holderState"
    by (simp add: matchedOrCreated_def)
  moreover have "findByProperties (credentialRecords ex_holderState) ''t1'' Holder (Some ''c1'')
     = Some (ex_record Holder OfferReceived (Some ''c1''))"
    using look by (simp add: ex_offerContext_def ex_message_def ex_conn_def)
  ultimately show ?thesis using first by simp
qed

subsection \<open>Negotiation\<close>

text \<open>
  Claim C4 as stated fails: the version and the state are asserted before the
  connection id is looked at, so a connection-less record in state \<^verbatim>\<open>Done\<close> is
  rejected with \<^verbatim>\<open>InvalidStateTransition\<close>, not \<^verbatim>\<open>NegotiationNotSupported\<close>.
\<close>

theorem C4_wrong_state_counterexample:
  "connectionId (ex_record Issuer Done None) = None
   \<and> negotiateProposal (ex_protocol (\<lambda>sv. True)) ex_issuerState (ex_record Issuer Done None)
        [''F1''] None = (Inl InvalidStateTransition, ex_issuerState)
   \<and> negotiateOffer (ex_protocol (\<lambda>sv. True)) ex_issuerState (ex_record Holder Done None)
        [''F1''] None = (Inl InvalidStateTransition, ex_issuerState)"
  by (simp add: negotiateProposal_def negotiateOffer_def ex_record_def assertProtocolVersion_def
      assertState_def)

text \<open>
  Claim C4, amended: for every exchange record whose \<open>connectionId\<close> is absent,
  \<^verbatim>\<open>negotiateProposal\<close> and \<^verbatim>\<open>negotiateOffer\<close> fail and leave the store unchanged;
  the error is \<^verbatim>\<open>NegotiationNotSupported\<close> when the record passes the assertions made
  first, that is version \<open>v2\<close> and state \<^verbatim>\<open>ProposalReceived\<close> (\<^verbatim>\<open>negotiateProposal\<close>) or
  \<^verbatim>\<open>OfferReceived\<close> (\<^verbatim>\<open>negotiateOffer\<close>). On such a record with a non-empty
  \<open>connectionId\<close>, when a format key resolves to a service and the coordinator builds
  the message, the call succeeds, returns the record in state \<^verbatim>\<open>OfferSent\<close>
  (\<^verbatim>\<open>ProposalSent\<close>) and writes it to the store.
\<close>

theorem C4_negotiation:
  "(connectionId r = None \<longrightarrow>
      (\<exists>e. negotiateProposal P s r cf autoAccept = (Inl e, s))
      \<and> (\<exists>e. negotiateOffer P s r cf autoAccept = (Inl e, s)))
   \<and> (connectionId r = None \<and> protocolVersion r = ''v2'' \<and> state r = ProposalReceived \<longrightarrow>
        negotiateProposal P s r cf autoAccept = (Inl NegotiationNotSupported, s))
   \<and> (connectionId r = None \<and> protocolVersion r = ''v2'' \<and> state r = OfferReceived \<longrightarrow>
        negotiateOffer P s r cf autoAccept = (Inl NegotiationNotSupported, s))
   \<and> (\<forall>c msg msgs'. connectionId r = Some c \<and> c \<noteq> [] \<and> protocolVersion r = ''v2''
        \<and> state r = ProposalReceived \<and> getFormatServices P cf \<noteq> []
        \<and> co_createOffer (credentialFormatCoordinator P) (didCommMessages s) r
             (getFormatServices P cf) (Some cf) = Inr (msg, msgs') \<longrightarrow>
        fst (negotiateProposal P s r cf autoAccept) =
          Inr ((withAutoAccept r autoAccept)\<lparr>state := OfferSent\<rparr>, msg)
        \<and> credentialRecords (snd (negotiateProposal P s r cf autoAccept)) =
            updateRecord (credentialRecords s) ((withAutoAccept r autoAccept)\<lparr>state := OfferSent\<rparr>))
   \<and> (\<forall>c msg msgs'. connectionId r = Some c \<and> c \<noteq> [] \<and> protocolVersion r = ''v2''
        \<and> state r = OfferReceived \<and> getFormatServices P cf \<noteq> []
        \<and> co_createProposal (credentialFormatCoordinator P) (didCommMessages s) r
             (getFormatServices P cf) (Some cf) = Inr (msg, msgs') \<longrightarrow>
        fst (negotiateOffer P s r cf autoAccept) =
          Inr ((withAutoAccept r autoAccept)\<lparr>state := ProposalSent\<rparr>, msg)
        \<and> credentialRecords (snd (negotiateOffer P s r cf autoAccept)) =
            updateRecord (credentialRecords s) ((withAutoAccept r autoAccept)\<lparr>state := ProposalSent\<rparr>))"
  by (auto simp: negotiateProposal_def negotiateOffer_def assertProtocolVersion_def assertState_def
      noConnectionId_def updateState_def withAutoAccept_def Let_def split: sum.splits)

theorem C4_negotiation_witness:
  "negotiateProposal (ex_protocol (\<lambda>sv. True)) (ex_negotiationState Issuer ProposalReceived None)
      (ex_record Issuer ProposalReceived None) [''F1''] None
     = (Inl NegotiationNotSupported, ex_negotiationState Issuer ProposalReceived None)
   \<and> negotiateOffer (ex_protocol (\<lambda>sv. True)) (ex_negotiationState Holder OfferReceived None)
      (ex_record Holder OfferReceived None) [''F1''] None
     = (Inl NegotiationNotSupported, ex_negotiationState Holder OfferReceived None)
   \<and> map_sum id (\<lambda>(r, m). state r)
       (fst (negotiateProposal (ex_protocol (\<lambda>sv. True))
               (ex_negotiationState Issuer ProposalReceived (Some ''c1''))
               (ex_record Issuer ProposalReceived (Some ''c1'')) [''F1''] None)) = Inr OfferSent
   \<and> map state (credentialRecords (snd (negotiateProposal (ex_protocol (\<lambda>sv. True))
               (ex_negotiationState Issuer ProposalReceived (Some ''c1''))
               (ex_record Issuer ProposalReceived (Some ''c1'')) [''F1''] None))) = [OfferSent]"
proof -
  let ?P = "ex_protocol (\<lambda>sv. True)"
  let ?r0 = "ex_record Issuer ProposalReceived None"
  let ?h0 = "ex_record Holder OfferReceived None"
  let ?r1 = "ex_record Issuer ProposalReceived (Some ''c1'')"
  let ?s1 = "ex_negotiationState Issuer ProposalReceived (Some ''c1'')"
  have a: "connectionId ?r0 = None \<and> protocolVersion ?r0 = ''v2'' \<and> state ?r0 = ProposalReceived"
    and b: "connectionId ?h0 = None \<and> protocolVersion ?h0 = ''v2'' \<and> state ?h0 = OfferReceived"
    by (simp_all add: ex_record_def)
  have c: "connectionId ?r1 = Some ''c1'' \<and> ''c1'' \<noteq> [] \<and> protocolVersion ?r1 = ''v2''
        \<and> state ?r1 = ProposalReceived \<and> getFormatServices ?P [''F1''] \<noteq> []
        \<and> co_createOffer (credentialFormatCoordinator ?P) (didCommMessages ?s1) ?r1
             (getFormatServices ?P [''F1'']) (Some [''F1''])
            = Inr (ex_message V2OfferCredentialMessage [''F1''] None,
                   [ex_stored Sender (ex_message V2OfferCredentialMessage [''F1''] None)])"
    by (simp add: ex_simps format_simps ex_negotiationState_def)
  note t0 = C4_negotiation [of ?r0 ?P "ex_negotiationState Issuer ProposalReceived None" "[''F1'']" None]
  note t1 = C4_negotiation [of ?h0 ?P "ex_negotiationState Holder OfferReceived None" "[''F1'']" None]
  note t2 = C4_negotiation [of ?r1 ?P ?s1 "[''F1'']" None]
  have p0: "negotiateProposal ?P (ex_negotiationState Issuer ProposalReceived None) ?r0 [''F1''] None
     = (Inl NegotiationNotSupported, ex_negotiationState Issuer ProposalReceived None)"
    using t0 a by blast
  have p1: "negotiateOffer ?P (ex_negotiationState Holder OfferReceived None) ?h0 [''F1''] None
     = (Inl NegotiationNotSupported, ex_negotiationState Holder OfferReceived None)"
    using t1 b by blast
  have p2: "fst (negotiateProposal ?P ?s1 ?r1 [''F1''] None) =
          Inr ((withAutoAccept ?r1 None)\<lparr>state := OfferSent\<rparr>,
               ex_message V2OfferCredentialMessage [''F1''] None)
        \<and> credentialRecords (snd (negotiateProposal ?P ?s1 ?r1 [''F1''] None)) =
            updateRecord (credentialRecords ?s1) ((withAutoAccept ?r1 None)\<lparr>state := OfferSent\<rparr>)"
    using t2 c by blast
  show ?thesis
    using p0 p1 p2
    by (simp add: withAutoAccept_def updateRecord_def ex_negotiationState_def ex_record_def)
qed

subsection \<open>Auto-accept decisions\<close>



lemma autoRespondLoop_error:
  "autoRespondLoop ask xs = Inl e \<Longrightarrow> \<exists>x\<in>set xs. ask x = Inl e"
  by (induction xs) (auto split: sum.splits if_splits)
















subsection \<open>Credential previews in the auto-accept decision\<close>

text \<open>
  Claim C6, evaluated on the code. Under \<^verbatim>\<open>ContentApproved\<close>, with the proposal sent
  carrying a preview with no attribute and the inbound offer carrying no preview at all
  (the format \<open>F1\<close> agreeing), \<^verbatim>\<open>shouldAutoRespondToOffer\<close> compares
  \<^verbatim>\<open>credentialPreview?.attributes ?? []\<close> on both sides and answers true, although one
  message has a preview and the other has none. \<^verbatim>\<open>shouldAutoRespondToProposal\<close> on the
  mirrored input answers false, as does \<^verbatim>\<open>shouldAutoRespondToOffer\<close> for the previews
  \<open>name: John\<close> and \<open>name: Jane\<close>.
\<close>

theorem C6_offer_preview_absent_accepted:
  "shouldAutoRespondToOffer (ex_protocol (\<lambda>sv. True)) (ex_sentProposal (Some []))
     (ex_record Holder ProposalSent (Some ''c1''))
     (ex_message V2OfferCredentialMessage [''F1''] None) = Inr True
   \<and> shouldAutoRespondToProposal (ex_protocol (\<lambda>sv. True)) (ex_sentOffer (Some []))
     (ex_record Issuer OfferSent (Some ''c1''))
     (ex_message V2ProposeCredentialMessage [''F1''] None) = Inr False
   \<and> shouldAutoRespondToOffer (ex_protocol (\<lambda>sv. True))
     (ex_sentProposal (Some [ex_attribute ''name'' ''John'']))
     (ex_record Holder ProposalSent (Some ''c1''))
     (ex_message V2OfferCredentialMessage [''F1''] (Some [ex_attribute ''name'' ''Jane''])) = Inr False"
  by (simp add: shouldAutoRespondToOffer_def shouldAutoRespondToProposal_def composeAutoAccept_def
      findProposalMessage_def findOfferMessage_def ex_sentProposal_def ex_sentOffer_def ex_simps
      format_simps askOffer_def askProposal_def attachmentFor_def arePreviewAttributesEqual_def
      attributesOrEmpty_def ex_attribute_def isPresent_def Let_def)

end
